theory Spec2Isabelle
  imports Main
begin

section \<open>The Lon updater (updater.py)\<close>

text \<open>
  A shallow embedding of \<^verbatim>\<open>updater.py\<close>. The script works on files, so the state
  that is threaded through every function is a small file system together with the
  lines written by \<^verbatim>\<open>log\<close>. Everything the script gets from outside (the network,
  the clock, the user, the process table, and whether an operating-system call succeeds)
  is an explicit input, collected in the record \<open>env\<close>. An operating-system call that
  raises is a branch of the model: each call site of the script has a name (\<open>site\<close>,
  \<open>csite\<close>) and the environment says, per site, whether the call raises there.

  A call that raises from outside leaves the file system as it found it, except
  \<^verbatim>\<open>shutil.copy2\<close> and the transfer of a download, which can fail with part of
  the destination written. Besides, a call raises where the state of the file system
  makes it (a missing file, a directory in the place of a file).

  Text is a list of characters, read as code points below 256; the non-breaking hyphen
  of the log lines \<^verbatim>\<open>SHA-256\<close> is written as a plain hyphen. Paths follow
  \<^verbatim>\<open>posixpath\<close>. The log file itself is not part of the modelled file system, and
  the digest function is a parameter (\<open>hexdigest\<close>).
\<close>

subsection \<open>Strings\<close>

type_synonym path = string
type_synonym bytes = string

text \<open>\<^verbatim>\<open>str.isspace\<close> for one code point below 256: TAB, LF, VT, FF, CR, the four
  separators FS, GS, RS, US, the space, NEL and the no-break space.\<close>

definition is_space :: "char \<Rightarrow> bool" where
  "is_space c = (of_char c \<in> {9, 10, 11, 12, 13, 28, 29, 30, 31, 32, 133, 160 :: nat})"

text \<open>\<^verbatim>\<open>str.lower\<close> for one code point below 256: A-Z and the Latin-1 capitals
  (except the multiplication sign) move up by 32.\<close>

definition lower_char :: "char \<Rightarrow> char" where
  "lower_char c =
     (let n = (of_char c :: nat)
      in if (65 \<le> n \<and> n \<le> 90) \<or> (192 \<le> n \<and> n \<le> 222 \<and> n \<noteq> 215)
         then char_of (n + 32) else c)"

definition lower :: "string \<Rightarrow> string" where
  "lower s = map lower_char s"

text \<open>\<^verbatim>\<open>s.strip()\<close>\<close>

definition strip :: "string \<Rightarrow> string" where
  "strip s = rev (dropWhile is_space (rev (dropWhile is_space s)))"

text \<open>\<^verbatim>\<open>s.split()\<close>: skip white space, take the run of characters up to the next
  white space, repeat.\<close>

function split_ws :: "string \<Rightarrow> string list" where
  "split_ws s =
     (let s' = dropWhile is_space s
      in if s' = [] then []
         else takeWhile (\<lambda>c. \<not> is_space c) s' # split_ws (dropWhile (\<lambda>c. \<not> is_space c) s'))"
  by pat_completeness auto
termination
proof (relation "measure length")
  fix s s' :: string
  assume s': "s' = dropWhile is_space s" and ne: "s' \<noteq> []"
  from ne obtain c cs where cs: "s' = c # cs" by (cases s') auto
  from ne have "\<not> is_space (hd s')" unfolding s' by (rule hd_dropWhile)
  with cs have "\<not> is_space c" by simp
  with cs have "length (dropWhile (\<lambda>c. \<not> is_space c) s') \<le> length cs"
    by (simp add: length_dropWhile_le)
  also have "length cs < length s'" using cs by simp
  also have "length s' \<le> length s" using s' by (simp add: length_dropWhile_le)
  finally show "(dropWhile (\<lambda>c. \<not> is_space c) s', s) \<in> measure length" by simp
qed simp

declare split_ws.simps [simp del]

text \<open>\<^verbatim>\<open>s.startswith(p)\<close>\<close>

definition startswith :: "string \<Rightarrow> string \<Rightarrow> bool" where
  "startswith s p = (take (length p) s = p)"

text \<open>\<^verbatim>\<open>s.splitlines()\<close>: the line boundaries below 256 are LF, VT, FF, CR (and CR LF as
  one), FS, GS, RS and NEL; a final line end opens no further line.\<close>

definition is_linebreak :: "char \<Rightarrow> bool" where
  "is_linebreak c = (of_char c \<in> {10, 11, 12, 13, 28, 29, 30, 133 :: nat})"

function splitlines :: "string \<Rightarrow> string list" where
  "splitlines s =
     (if s = [] then []
      else (case dropWhile (\<lambda>c. \<not> is_linebreak c) s of
              [] \<Rightarrow> [s]
            | c # r \<Rightarrow>
                takeWhile (\<lambda>c. \<not> is_linebreak c) s #
                splitlines (if c = CHR 0x0D \<and> startswith r [CHR 0x0A] then tl r else r)))"
  by pat_completeness auto
termination
proof (relation "measure length")
  fix s r :: string and c
  assume "dropWhile (\<lambda>c. \<not> is_linebreak c) s = c # r"
  then have "length (c # r) \<le> length s"
    by (metis length_dropWhile_le)
  then show "(if c = CHR 0x0D \<and> startswith r [CHR 0x0A] then tl r else r, s) \<in> measure length"
    by (cases r) auto
qed simp

declare splitlines.simps [simp del]

subsection \<open>Paths (posixpath) and the time stamp\<close>

text \<open>\<^verbatim>\<open>os.path.basename(p)\<close>: what follows the last slash.\<close>

definition basename :: "path \<Rightarrow> path" where
  "basename p = rev (takeWhile (\<lambda>c. c \<noteq> CHR ''/'') (rev p))"

text \<open>\<^verbatim>\<open>p[:p.rfind('/') + 1]\<close>: up to and including the last slash.\<close>

definition path_head :: "path \<Rightarrow> path" where
  "path_head p = rev (dropWhile (\<lambda>c. c \<noteq> CHR ''/'') (rev p))"

text \<open>\<^verbatim>\<open>os.path.dirname(p)\<close>: the head without its trailing slashes, unless it consists
  of slashes only.\<close>

definition dirname :: "path \<Rightarrow> path" where
  "dirname p =
     (let h = path_head p
      in if h \<noteq> [] \<and> (\<exists>c \<in> set h. c \<noteq> CHR ''/'')
         then rev (dropWhile (\<lambda>c. c = CHR ''/'') (rev h)) else h)"

text \<open>\<^verbatim>\<open>os.path.join(a, b)\<close>\<close>

definition os_path_join :: "path \<Rightarrow> path \<Rightarrow> path" where
  "os_path_join a b =
     (if startswith b ''/'' then b
      else if a = [] \<or> last a = CHR ''/'' then a @ b
      else a @ ''/'' @ b)"

text \<open>\<^verbatim>\<open>os.path.splitext(p)\<close>: split at the last dot of the last component, unless that
  component has nothing but dots before it.\<close>

definition splitext :: "path \<Rightarrow> path \<times> string" where
  "splitext p =
     (let name = basename p
      in if CHR ''.'' \<in> set name then
           (let stem = rev (tl (dropWhile (\<lambda>c. c \<noteq> CHR ''.'') (rev name)));
                ext = CHR ''.'' # rev (takeWhile (\<lambda>c. c \<noteq> CHR ''.'') (rev name))
            in if \<exists>c \<in> set stem. c \<noteq> CHR ''.'' then (path_head p @ stem, ext) else (p, []))
         else (p, []))"

record datetime =
  year :: nat
  month :: nat
  day :: nat
  hour :: nat
  minute :: nat
  second :: nat

definition digit :: "nat \<Rightarrow> char" where
  "digit d = char_of (48 + d mod 10)"

definition pad2 :: "nat \<Rightarrow> string" where
  "pad2 n = [digit (n div 10), digit n]"

definition pad4 :: "nat \<Rightarrow> string" where
  "pad4 n = [digit (n div 1000), digit (n div 100), digit (n div 10), digit n]"

text \<open>\<^verbatim>\<open>t.strftime('%Y%m%d_%H%M%S')\<close>\<close>

definition strftime_stamp :: "datetime \<Rightarrow> string" where
  "strftime_stamp t =
     pad4 (year t) @ pad2 (month t) @ pad2 (day t) @ ''_'' @
     pad2 (hour t) @ pad2 (minute t) @ pad2 (second t)"

subsection \<open>The file system and the environment\<close>

text \<open>A regular file is its content and its mode bits (what \<^verbatim>\<open>copystat\<close> carries over).
  Directories are kept as a set of paths; the entries below a directory are the paths
  that extend it.\<close>

type_synonym regfile = "bytes \<times> nat"

record world =
  files :: "path \<rightharpoonup> regfile"
  dirs :: "path set"
  logged :: "string list"
  stderr :: "string list"

datatype exn =
    FileNotFoundError | FileExistsError | IsADirectoryError | NotADirectoryError
  | PermissionError | SameFileError | OSError | UnboundLocalError | EOFError
  | URLError | HTTPError | UnicodeDecodeError | ValueError

text \<open>How \<^verbatim>\<open>{ex}\<close> prints in a log line: the class name stands for the message.\<close>

fun str_exn :: "exn \<Rightarrow> string" where
  "str_exn FileNotFoundError = ''FileNotFoundError''"
| "str_exn FileExistsError = ''FileExistsError''"
| "str_exn IsADirectoryError = ''IsADirectoryError''"
| "str_exn NotADirectoryError = ''NotADirectoryError''"
| "str_exn PermissionError = ''PermissionError''"
| "str_exn SameFileError = ''SameFileError''"
| "str_exn OSError = ''OSError''"
| "str_exn UnboundLocalError = ''UnboundLocalError''"
| "str_exn EOFError = ''EOFError''"
| "str_exn URLError = ''URLError''"
| "str_exn HTTPError = ''HTTPError''"
| "str_exn UnicodeDecodeError = ''UnicodeDecodeError''"
| "str_exn ValueError = ''ValueError''"

text \<open>The call sites of operating-system calls, by the line of \<^verbatim>\<open>updater.py\<close>.\<close>

datatype site =
    SetupLogging       \<comment> \<open>35-37\<close>
  | MkstempChecksum    \<comment> \<open>98, called from 116\<close>
  | ReadChecksum       \<comment> \<open>120-121\<close>
  | RmChecksum         \<comment> \<open>131\<close>
  | MkstempRelease     \<comment> \<open>98, called from 270\<close>
  | HashCandidate      \<comment> \<open>275\<close>
  | RmMismatch         \<comment> \<open>280\<close>
  | HashInstalled      \<comment> \<open>289\<close>
  | RmUpToDate         \<comment> \<open>292\<close>
  | RmDeclined         \<comment> \<open>300\<close>
  | RmNotStopped       \<comment> \<open>306\<close>
  | BackupMakedirs     \<comment> \<open>194\<close>
  | RmBackupFailed     \<comment> \<open>315\<close>
  | ReplaceMakedirs    \<comment> \<open>217\<close>
  | ReplaceMove        \<comment> \<open>221\<close>
  | ReplaceCleanup     \<comment> \<open>228\<close>
  | RmReplaceFailed    \<comment> \<open>327\<close>
  | RmSuccess          \<comment> \<open>332\<close>

text \<open>The three calls of \<^verbatim>\<open>shutil.copy2\<close>.\<close>

datatype csite =
    BackupCopy         \<comment> \<open>199\<close>
  | ReplaceCopy        \<comment> \<open>219\<close>
  | RollbackCopy       \<comment> \<open>323\<close>

text \<open>What can go wrong in \<^verbatim>\<open>shutil.copy2\<close>, from outside: it fails before the
  destination is opened, it fails after some bytes were written, or the content is
  copied and \<^verbatim>\<open>copystat\<close> fails.\<close>

datatype copy_fault =
    CopyOk
  | CopyFailOpen exn
  | CopyFailWrite nat exn
  | CopyFailStat exn

text \<open>What \<^verbatim>\<open>urlopen\<close> gives: it raises, or there is a response with a status and
  a body, whose transfer may break after some bytes.\<close>

datatype response =
    UrlopenRaises exn
  | Response nat bytes "(nat \<times> exn) option"

record config =
  releases_url :: "string option"
  expected_sha256_url :: "string option"
  app_process_name :: "string option"
  install_path :: "string option"
  backup_path :: "string option"

record env =
  argv0 :: path                            \<comment> \<open>\<^verbatim>\<open>sys.argv[0]\<close>\<close>
  config_exists :: bool                    \<comment> \<open>\<^verbatim>\<open>os.path.exists(config_path)\<close>, 236\<close>
  load_config :: "exn + config"            \<comment> \<open>240, and the \<^verbatim>\<open>config.get\<close> calls\<close>
  os_nt :: bool                            \<comment> \<open>\<^verbatim>\<open>os.name == 'nt'\<close>\<close>
  urlopen :: "string \<Rightarrow> response"
  mkstemp_stem :: "site \<Rightarrow> path"          \<comment> \<open>the fresh name \<^verbatim>\<open>mkstemp\<close> picks, without the suffix\<close>
  create_mode :: nat                       \<comment> \<open>the mode of a file that \<^verbatim>\<open>open(dst, 'wb')\<close> creates\<close>
  hexdigest :: "bytes \<Rightarrow> string"           \<comment> \<open>\<^verbatim>\<open>hashlib.sha256(b).hexdigest()\<close>\<close>
  now :: datetime                          \<comment> \<open>\<^verbatim>\<open>datetime.now()\<close>, 195\<close>
  message_box :: "exn + int"               \<comment> \<open>\<^verbatim>\<open>MessageBoxW\<close>, 72\<close>
  stdin_lines :: "string list"             \<comment> \<open>what \<^verbatim>\<open>input()\<close> reads, 79\<close>
  tasklist :: "nat \<Rightarrow> exn + string"        \<comment> \<open>the output of the k-th \<^verbatim>\<open>tasklist\<close> call, 151\<close>
  taskkill :: "exn option"                 \<comment> \<open>\<^verbatim>\<open>subprocess.run(['taskkill', ...])\<close>, 173\<close>
  fault :: "site \<Rightarrow> exn option"            \<comment> \<open>the call at that site raises\<close>
  copy_fault :: "csite \<Rightarrow> copy_fault"

text \<open>\<^verbatim>\<open>log(msg)\<close>: one more line (the time stamp in front of it is left out).\<close>

definition log :: "string \<Rightarrow> world \<Rightarrow> world" where
  "log msg w = w\<lparr>logged := logged w @ [msg]\<rparr>"

definition os_path_isfile :: "path \<Rightarrow> world \<Rightarrow> bool" where
  "os_path_isfile p w = (p \<notin> dirs w \<and> files w p \<noteq> None)"

definition os_path_exists :: "path \<Rightarrow> world \<Rightarrow> bool" where
  "os_path_exists p w = (p \<in> dirs w \<or> files w p \<noteq> None)"

text \<open>\<^verbatim>\<open>os.remove(p)\<close>\<close>

definition os_remove :: "exn option \<Rightarrow> path \<Rightarrow> world \<Rightarrow> exn + world" where
  "os_remove f p w =
     (case f of
        Some e \<Rightarrow> Inl e
      | None \<Rightarrow>
          if p \<in> dirs w then Inl IsADirectoryError
          else if files w p = None then Inl FileNotFoundError
          else Inr (w\<lparr>files := (files w)(p := None)\<rparr>))"

text \<open>\<^verbatim>\<open>os.makedirs(p, exist_ok=True)\<close>. Only \<open>p\<close> itself is recorded, not the
  directories above it.\<close>

definition os_makedirs :: "exn option \<Rightarrow> path \<Rightarrow> world \<Rightarrow> exn + world" where
  "os_makedirs f p w =
     (case f of
        Some e \<Rightarrow> Inl e
      | None \<Rightarrow>
          if p = [] then Inl FileNotFoundError
          else if p \<in> dirs w then Inr w
          else if files w p \<noteq> None then Inl FileExistsError
          else Inr (w\<lparr>dirs := insert p (dirs w)\<rparr>))"

text \<open>\<^verbatim>\<open>tempfile.mkstemp\<close>: a new, empty file of mode 0600 under a name that was free.\<close>

definition mkstemp :: "exn option \<Rightarrow> path \<Rightarrow> world \<Rightarrow> exn + world" where
  "mkstemp f p w =
     (case f of
        Some e \<Rightarrow> Inl e
      | None \<Rightarrow>
          if os_path_exists p w then Inl FileExistsError
          else Inr (w\<lparr>files := (files w)(p \<mapsto> ([], 384))\<rparr>))"

text \<open>\<^verbatim>\<open>shutil.copy2(src, dst)\<close>: a destination that is a directory stands for the entry
  of the source's name in it; then \<^verbatim>\<open>copyfile\<close> (which truncates or creates the target
  and writes the content) and \<^verbatim>\<open>copystat\<close>. The second component of the result is the
  file system the call leaves, also when it raises.\<close>

definition copy_target :: "path \<Rightarrow> path \<Rightarrow> world \<Rightarrow> path" where
  "copy_target src dst w = (if dst \<in> dirs w then os_path_join dst (basename src) else dst)"

definition copy2 :: "env \<Rightarrow> copy_fault \<Rightarrow> path \<Rightarrow> path \<Rightarrow> world \<Rightarrow> exn option \<times> world" where
  "copy2 E cf src dst w =
     (let tgt = copy_target src dst w
      in case cf of
           CopyFailOpen e \<Rightarrow> (Some e, w)
         | _ \<Rightarrow>
           if src \<in> dirs w then (Some IsADirectoryError, w)
           else (case files w src of
                   None \<Rightarrow> (Some FileNotFoundError, w)
                 | Some (c, m) \<Rightarrow>
                     if tgt = src then (Some SameFileError, w)
                     else if tgt \<in> dirs w then (Some IsADirectoryError, w)
                     else
                       (let m0 = (case files w tgt of None \<Rightarrow> create_mode E | Some (c', m') \<Rightarrow> m')
                        in case cf of
                             CopyFailWrite n e \<Rightarrow>
                               (Some e, w\<lparr>files := (files w)(tgt \<mapsto> (take n c, m0))\<rparr>)
                           | CopyFailStat e \<Rightarrow>
                               (Some e, w\<lparr>files := (files w)(tgt \<mapsto> (c, m0))\<rparr>)
                           | _ \<Rightarrow>
                               (None, w\<lparr>files := (files w)(tgt \<mapsto> (c, m))\<rparr>))))"

text \<open>\<^verbatim>\<open>os.replace(src, dst)\<close>: all or nothing. A file replaces a file or takes a free
  name; a directory moves, with everything below it, to a free name; anything else
  raises.\<close>

definition below :: "path \<Rightarrow> path \<Rightarrow> bool" where
  "below d p = (p = d \<or> startswith p (d @ ''/''))"

definition os_replace :: "exn option \<Rightarrow> path \<Rightarrow> path \<Rightarrow> world \<Rightarrow> exn + world" where
  "os_replace f src dst w =
     (case f of
        Some e \<Rightarrow> Inl e
      | None \<Rightarrow>
          if src \<in> dirs w then
            (if files w dst \<noteq> None then Inl NotADirectoryError
             else if dst \<in> dirs w \<or> below src dst then Inl OSError
             else Inr (w\<lparr>files := (\<lambda>q. if below dst q then files w (src @ drop (length dst) q)
                                         else if below src q then None else files w q),
                           dirs := (\<lambda>q. if below src q then dst @ drop (length src) q else q)
                                   ` dirs w\<rparr>))
          else if files w src = None then Inl FileNotFoundError
          else if dst \<in> dirs w then Inl IsADirectoryError
          else if src = dst then Inr w
          else Inr (w\<lparr>files := (files w)(dst := files w src, src := None)\<rparr>))"

subsection \<open>The functions of updater.py\<close>

text \<open>Python's truth value of an optional string: \<^verbatim>\<open>None\<close> and \<^verbatim>\<open>''\<close> are false.\<close>

definition truthy :: "string option \<Rightarrow> bool" where
  "truthy s = (case s of None \<Rightarrow> False | Some x \<Rightarrow> x \<noteq> [])"

function str_nat :: "nat \<Rightarrow> string" where
  "str_nat n = (if n < 10 then [digit n] else str_nat (n div 10) @ [digit n])"
  by pat_completeness auto
termination
  by (relation "measure id") auto

declare str_nat.simps [simp del]

text \<open>\<^verbatim>\<open>download_to_temp\<close>, lines 86-106. \<open>tmp_name\<close> is the path that
  \<^verbatim>\<open>tempfile.mkstemp(suffix=os.path.splitext(url)[-1])\<close> returns. The two \<^verbatim>\<open>except\<close>
  clauses differ in the text they log only. The temporary file is created before the
  body is copied into it, and nothing removes it when the copy breaks.\<close>

definition tmp_name :: "env \<Rightarrow> site \<Rightarrow> string \<Rightarrow> path" where
  "tmp_name E st url = mkstemp_stem E st @ snd (splitext url)"

definition download_error :: "string \<Rightarrow> exn \<Rightarrow> string" where
  "download_error description e =
     (if e = URLError \<or> e = HTTPError
      then ''Network error downloading '' @ description @ '': '' @ str_exn e
      else ''Unexpected error downloading '' @ description @ '': '' @ str_exn e)"

definition download_to_temp :: "env \<Rightarrow> site \<Rightarrow> string \<Rightarrow> string \<Rightarrow> world \<Rightarrow> path option \<times> world" where
  "download_to_temp E st url description w =
     (let w1 = log (''Downloading '' @ description @ '' from '' @ url) w
      in case urlopen E url of
           UrlopenRaises e \<Rightarrow> (None, log (download_error description e) w1)
         | Response status body broken \<Rightarrow>
             if status \<ge> 400 then
               (None, log (''Failed to download '' @ description @ '': HTTP '' @ str_nat status) w1)
             else
               (let tmp_path = tmp_name E st url
                in case mkstemp (fault E st) tmp_path w1 of
                     Inl e \<Rightarrow> (None, log (download_error description e) w1)
                   | Inr w2 \<Rightarrow>
                       (case broken of
                          Some (n, e) \<Rightarrow>
                            (None, log (download_error description e)
                                     (w2\<lparr>files := (files w2)(tmp_path \<mapsto> (take n body, 384))\<rparr>))
                        | None \<Rightarrow>
                            (Some tmp_path, w2\<lparr>files := (files w2)(tmp_path \<mapsto> (body, 384))\<rparr>))))"

text \<open>Reading a file as text, lines 120-121.\<close>

definition read_text :: "exn option \<Rightarrow> path \<Rightarrow> world \<Rightarrow> exn + string" where
  "read_text f p w =
     (case f of
        Some e \<Rightarrow> Inl e
      | None \<Rightarrow>
          if p \<in> dirs w then Inl IsADirectoryError
          else (case files w p of None \<Rightarrow> Inl FileNotFoundError | Some (c, m) \<Rightarrow> Inr c))"

text \<open>Lines 121-126 of \<^verbatim>\<open>read_remote_checksum\<close>: the digest in the text of the checksum
  file, \<open>None\<close> where the function logs that the file is empty.\<close>

definition parse_checksum :: "string \<Rightarrow> string option" where
  "parse_checksum text =
     (case split_ws (strip text) of
        [] \<Rightarrow> None
      | token # rest \<Rightarrow> Some (strip token))"

text \<open>\<^verbatim>\<open>read_remote_checksum\<close>, lines 109-134. The \<^verbatim>\<open>finally\<close> clause removes the
  temporary file and ignores a failure to do so.\<close>

definition read_remote_checksum :: "env \<Rightarrow> string \<Rightarrow> world \<Rightarrow> string option \<times> world" where
  "read_remote_checksum E url w =
     (case download_to_temp E MkstempChecksum url ''checksum'' w of
        (None, w1) \<Rightarrow> (None, w1)
      | (Some tmp_path, w1) \<Rightarrow>
          if tmp_path = [] then (None, w1)
          else
            (let (r, w2) =
                   (case read_text (fault E ReadChecksum) tmp_path w1 of
                      Inl e \<Rightarrow> (None, log (''Failed to read checksum file: '' @ str_exn e) w1)
                    | Inr text \<Rightarrow>
                        (case parse_checksum text of
                           None \<Rightarrow> (None, log ''Checksum file is empty'' w1)
                         | Some checksum \<Rightarrow> (Some checksum, w1)))
             in (r, case os_remove (fault E RmChecksum) tmp_path w2 of
                      Inl e \<Rightarrow> w2
                    | Inr w3 \<Rightarrow> w3)))"

text \<open>\<^verbatim>\<open>sha256_of_file\<close>, lines 137-143.\<close>

definition sha256_of_file :: "env \<Rightarrow> exn option \<Rightarrow> path \<Rightarrow> world \<Rightarrow> exn + string" where
  "sha256_of_file E f p w =
     (case f of
        Some e \<Rightarrow> Inl e
      | None \<Rightarrow>
          if p \<in> dirs w then Inl IsADirectoryError
          else (case files w p of
                  None \<Rightarrow> Inl FileNotFoundError
                | Some (c, m) \<Rightarrow> Inr (hexdigest E c)))"

text \<open>\<^verbatim>\<open>is_process_running\<close>, lines 146-158; \<open>k\<close> counts the calls of \<^verbatim>\<open>tasklist\<close>.\<close>

definition is_process_running :: "env \<Rightarrow> nat \<Rightarrow> string \<Rightarrow> bool" where
  "is_process_running E k name =
     (if \<not> os_nt E then False
      else (case tasklist E k of
              Inl e \<Rightarrow> False
            | Inr output \<Rightarrow>
                (\<exists>line \<in> set (splitlines output). startswith (lower line) (lower name))))"

text \<open>The loop of lines 175-178: at most ten polls; the result is the number of the next
  \<^verbatim>\<open>tasklist\<close> call.\<close>

fun poll :: "env \<Rightarrow> string \<Rightarrow> nat \<Rightarrow> nat \<Rightarrow> nat" where
  "poll E name 0 k = k"
| "poll E name (Suc n) k =
     (if \<not> is_process_running E k name then Suc k else poll E name n (Suc k))"

text \<open>\<^verbatim>\<open>terminate_process\<close>, lines 161-185.\<close>

definition terminate_process :: "env \<Rightarrow> string \<Rightarrow> world \<Rightarrow> bool \<times> world" where
  "terminate_process E name w =
     (if \<not> os_nt E then (True, w)
      else if \<not> is_process_running E 0 name then (True, w)
      else
        (let w1 = log (name @ '' is currently running. Attempting to terminate.'') w
         in case taskkill E of
              Some e \<Rightarrow> (False, log (''Error terminating '' @ name @ '': '' @ str_exn e) w1)
            | None \<Rightarrow>
                if is_process_running E (poll E name 10 1) name then
                  (False, log (''Unable to terminate '' @ name @ ''; it may require manual closure.'') w1)
                else (True, w1)))"

text \<open>\<^verbatim>\<open>confirm_update\<close>, lines 60-83. The console loop reads lines until one is an
  answer; at the end of the input \<^verbatim>\<open>input()\<close> raises.\<close>

fun console_prompt :: "string list \<Rightarrow> exn + bool" where
  "console_prompt [] = Inl EOFError"
| "console_prompt (l # ls) =
     (let choice = lower (strip l)
      in if choice = ''y'' \<or> choice = ''yes'' then Inr True
         else if choice = ''n'' \<or> choice = ''no'' \<or> choice = [] then Inr False
         else console_prompt ls)"

definition confirm_update :: "env \<Rightarrow> exn + bool" where
  "confirm_update E =
     (if os_nt E then
        (case message_box E of
           Inr r \<Rightarrow> Inr (r = 6)
         | Inl e \<Rightarrow> console_prompt (stdin_lines E))
      else console_prompt (stdin_lines E))"

text \<open>\<^verbatim>\<open>backup_file\<close>, lines 188-204.\<close>

definition backup_name :: "env \<Rightarrow> path \<Rightarrow> string" where
  "backup_name E src_path =
     fst (splitext (basename src_path)) @ ''_'' @ strftime_stamp (now E) @ ''.exe''"

definition backup_file :: "env \<Rightarrow> path \<Rightarrow> path \<Rightarrow> world \<Rightarrow> path option \<times> world" where
  "backup_file E src_path backup_dir w =
     (case os_makedirs (fault E BackupMakedirs) backup_dir w of
        Inl e \<Rightarrow> (None, log (''Failed to create backup of '' @ src_path @ '': '' @ str_exn e) w)
      | Inr w1 \<Rightarrow>
          (let backup_path = os_path_join backup_dir (backup_name E src_path)
           in case copy2 E (copy_fault E BackupCopy) src_path backup_path w1 of
                (Some e, w2) \<Rightarrow>
                  (None, log (''Failed to create backup of '' @ src_path @ '': '' @ str_exn e) w2)
              | (None, w2) \<Rightarrow>
                  (Some backup_path, log (''Backed up current executable to '' @ backup_path) w2)))"

text \<open>\<^verbatim>\<open>atomic_replace\<close>, lines 207-231. When \<^verbatim>\<open>os.makedirs\<close> raises, \<^verbatim>\<open>tmp_dest\<close> has
  no value yet: the clean-up raises \<^verbatim>\<open>UnboundLocalError\<close>, which its own
  \<^verbatim>\<open>except\<close> clause swallows, and nothing is removed.\<close>

definition replace_cleanup :: "env \<Rightarrow> path \<Rightarrow> world \<Rightarrow> world" where
  "replace_cleanup E tmp_dest w =
     (if os_path_exists tmp_dest w then
        (case os_remove (fault E ReplaceCleanup) tmp_dest w of
           Inl e \<Rightarrow> w
         | Inr w' \<Rightarrow> w')
      else w)"

definition atomic_replace :: "env \<Rightarrow> path \<Rightarrow> path \<Rightarrow> world \<Rightarrow> bool \<times> world" where
  "atomic_replace E src dest w =
     (let dest_dir = dirname dest
      in case os_makedirs (fault E ReplaceMakedirs) dest_dir w of
           Inl e \<Rightarrow> (False, log (''Failed to replace '' @ dest @ '': '' @ str_exn e) w)
         | Inr w1 \<Rightarrow>
             (let tmp_dest = dest @ ''.new''
              in case copy2 E (copy_fault E ReplaceCopy) src tmp_dest w1 of
                   (Some e, w2) \<Rightarrow>
                     (False, replace_cleanup E tmp_dest
                               (log (''Failed to replace '' @ dest @ '': '' @ str_exn e) w2))
                 | (None, w2) \<Rightarrow>
                     (case os_replace (fault E ReplaceMove) tmp_dest dest w2 of
                        Inl e \<Rightarrow>
                          (False, replace_cleanup E tmp_dest
                                    (log (''Failed to replace '' @ dest @ '': '' @ str_exn e) w2))
                      | Inr w3 \<Rightarrow> (True, w3))))"

subsection \<open>main\<close>

text \<open>Where a run of \<^verbatim>\<open>main\<close> ends: one constructor for each place that leaves the
  function, and \<open>Uncaught\<close> for an exception that nothing catches (Python prints the
  traceback and the process exits with code 1).\<close>

datatype outcome =
    ConfigMissing                  \<comment> \<open>236-238\<close>
  | ConfigIncomplete               \<comment> \<open>254-256\<close>
  | ReferenceUnavailable           \<comment> \<open>264-266\<close>
  | DownloadFailed                 \<comment> \<open>271-273\<close>
  | ChecksumMismatch               \<comment> \<open>277-283\<close>
  | AlreadyUpToDate                \<comment> \<open>290-293\<close>
  | UserDeclined                   \<comment> \<open>298-301\<close>
  | ProcessNotStopped              \<comment> \<open>304-307\<close>
  | BackupFailed                   \<comment> \<open>313-316\<close>
  | ReplaceFailedRolledBack        \<comment> \<open>319-328, after 324\<close>
  | ReplaceFailedRollbackFailed    \<comment> \<open>319-328, after 326\<close>
  | ReplaceFailedNoBackup          \<comment> \<open>319-328, no backup to restore\<close>
  | Success                        \<comment> \<open>330-337\<close>
  | Uncaught exn

record result =
  outcome :: outcome
  exit_code :: int
  final :: world

definition finish :: "outcome \<Rightarrow> int \<Rightarrow> world \<Rightarrow> result" where
  "finish oc code w = \<lparr>outcome = oc, exit_code = code, final = w\<rparr>"

text \<open>An uncaught exception.\<close>

definition uncaught :: "exn \<Rightarrow> world \<Rightarrow> result" where
  "uncaught e w = finish (Uncaught e) 1 w"

text \<open>\<^verbatim>\<open>os.remove(download_path); sys.exit(code)\<close>, as in lines 300-301, 306-307, 315-316
  and 327-328: the removal is not guarded.\<close>

definition remove_and_exit :: "exn option \<Rightarrow> path \<Rightarrow> outcome \<Rightarrow> int \<Rightarrow> world \<Rightarrow> result" where
  "remove_and_exit f download_path oc code w =
     (case os_remove f download_path w of
        Inl e \<Rightarrow> uncaught e w
      | Inr w' \<Rightarrow> finish oc code w')"

text \<open>\<^verbatim>\<open>try: os.remove(download_path) except Exception: pass\<close>, as in lines 279-282 and
  331-334.\<close>

definition try_remove :: "exn option \<Rightarrow> path \<Rightarrow> world \<Rightarrow> world" where
  "try_remove f download_path w =
     (case os_remove f download_path w of
        Inl e \<Rightarrow> w
      | Inr w' \<Rightarrow> w')"

text \<open>Lines 318-337: replace the executable, roll back when that fails.\<close>

definition main_from_318 :: "env \<Rightarrow> path \<Rightarrow> path \<Rightarrow> path option \<Rightarrow> world \<Rightarrow> result" where
  "main_from_318 E download_path install backup_created w =
     (case atomic_replace E download_path install w of
        (False, w1) \<Rightarrow>
          (let w2 = log ''Failed to install update. Attempting rollback.'' w1
           in case backup_created of
                Some b \<Rightarrow>
                  if b \<noteq> [] then
                    (case copy2 E (copy_fault E RollbackCopy) b install w2 of
                       (None, w3) \<Rightarrow>
                         remove_and_exit (fault E RmReplaceFailed) download_path
                           ReplaceFailedRolledBack 1 (log ''Rollback succeeded.'' w3)
                     | (Some e, w3) \<Rightarrow>
                         remove_and_exit (fault E RmReplaceFailed) download_path
                           ReplaceFailedRollbackFailed 1
                           (log (''Rollback failed: '' @ str_exn e) w3))
                  else
                    remove_and_exit (fault E RmReplaceFailed) download_path
                      ReplaceFailedNoBackup 1 w2
              | None \<Rightarrow>
                  remove_and_exit (fault E RmReplaceFailed) download_path
                    ReplaceFailedNoBackup 1 w2)
      | (True, w1) \<Rightarrow>
          finish Success 0
            (log ''==========================================''
               (log ''Update completed successfully.''
                  (try_remove (fault E RmSuccess) download_path w1))))"

text \<open>Lines 309-316: back up the executable if there is one.\<close>

definition main_from_309 :: "env \<Rightarrow> path \<Rightarrow> path \<Rightarrow> path \<Rightarrow> world \<Rightarrow> result" where
  "main_from_309 E download_path install backup_dir w =
     (if os_path_isfile install w then
        (case backup_file E install backup_dir w of
           (backup_created, w1) \<Rightarrow>
             if \<not> truthy backup_created then
               remove_and_exit (fault E RmBackupFailed) download_path BackupFailed 1
                 (log ''Failed to create backup; aborting update.'' w1)
             else main_from_318 E download_path install backup_created w1)
      else main_from_318 E download_path install None w)"

text \<open>Lines 297-307: ask the user, stop the application.\<close>

definition main_from_297 :: "env \<Rightarrow> path \<Rightarrow> string \<Rightarrow> path \<Rightarrow> path \<Rightarrow> world \<Rightarrow> result" where
  "main_from_297 E download_path process_name install backup_dir w =
     (case confirm_update E of
        Inl e \<Rightarrow> uncaught e w
      | Inr yes \<Rightarrow>
          if \<not> yes then
            remove_and_exit (fault E RmDeclined) download_path UserDeclined 0
              (log ''User declined update.'' w)
          else
            (case terminate_process E process_name w of
               (False, w1) \<Rightarrow>
                 remove_and_exit (fault E RmNotStopped) download_path ProcessNotStopped 1
                   (log ''Update aborted because the application could not be closed.'' w1)
             | (True, w1) \<Rightarrow> main_from_309 E download_path install backup_dir w1))"

text \<open>Lines 286-295: is the installed file the new one already? The \<^verbatim>\<open>try\<close> block holds
  the digest, the comparison and the removal of the download; \<^verbatim>\<open>sys.exit\<close> passes
  through \<^verbatim>\<open>except Exception\<close>, every other exception of the block is logged and the
  run goes on.\<close>

definition main_from_286 ::
  "env \<Rightarrow> string \<Rightarrow> path \<Rightarrow> string \<Rightarrow> path \<Rightarrow> path \<Rightarrow> world \<Rightarrow> result" where
  "main_from_286 E new_digest download_path process_name install backup_dir w =
     (if os_path_isfile install w then
        (case sha256_of_file E (fault E HashInstalled) install w of
           Inl e \<Rightarrow>
             main_from_297 E download_path process_name install backup_dir
               (log (''Could not compute current executable checksum: '' @ str_exn e) w)
         | Inr current_digest \<Rightarrow>
             if lower current_digest = lower new_digest then
               (let w1 = log ''Installed Lon.exe is already up to date. No update necessary.'' w
                in case os_remove (fault E RmUpToDate) download_path w1 of
                     Inl e \<Rightarrow>
                       main_from_297 E download_path process_name install backup_dir
                         (log (''Could not compute current executable checksum: '' @ str_exn e) w1)
                   | Inr w2 \<Rightarrow> finish AlreadyUpToDate 0 w2)
             else main_from_297 E download_path process_name install backup_dir w)
      else main_from_297 E download_path process_name install backup_dir w)"

text \<open>Lines 274-284: the digest of the download against the expected one.\<close>

definition main_from_274 ::
  "env \<Rightarrow> string \<Rightarrow> path \<Rightarrow> string \<Rightarrow> path \<Rightarrow> path \<Rightarrow> world \<Rightarrow> result" where
  "main_from_274 E expected_digest download_path process_name install backup_dir w =
     (case sha256_of_file E (fault E HashCandidate) download_path w of
        Inl e \<Rightarrow> uncaught e w
      | Inr new_digest \<Rightarrow>
          (let w1 = log (''Downloaded file SHA-256: '' @ new_digest) w
           in if lower new_digest \<noteq> lower expected_digest then
                finish ChecksumMismatch 1
                  (try_remove (fault E RmMismatch) download_path
                     (log ''Checksum mismatch! Aborting update.'' w1))
              else
                main_from_286 E new_digest download_path process_name install backup_dir
                  (log ''Checksum verified.'' w1)))"

text \<open>The local variables of \<^verbatim>\<open>main\<close> that are set when line 274 is reached.\<close>

record locals =
  l_releases_url :: string
  l_checksum_url :: string
  l_process_name :: string
  l_install_path :: path
  l_backup_path :: path
  l_expected_digest :: string
  l_download_path :: path

text \<open>\<^verbatim>\<open>main\<close>, lines 258-273: the expected digest and the release are fetched. The
  run ends here (\<open>Inl\<close>), or it reaches line 274 with its local variables set
  (\<open>Inr\<close>).\<close>

definition main_258_to_274 ::
  "env \<Rightarrow> string \<Rightarrow> string \<Rightarrow> string \<Rightarrow> path \<Rightarrow> path \<Rightarrow> world \<Rightarrow> result + locals \<times> world" where
  "main_258_to_274 E releases checksum_url process_name install backup_dir w =
     (let w1 = (if \<not> os_path_isfile install w
                then log (''Current installation not found at '' @ install) w else w)
      in case read_remote_checksum E checksum_url w1 of
           (expected, w2) \<Rightarrow>
             if \<not> truthy expected then
               Inl (finish ReferenceUnavailable 1
                      (log ''Unable to retrieve expected checksum. Aborting.'' w2))
             else
               (let expected_digest = the expected;
                    w3 = log (''Expected SHA-256: '' @ expected_digest) w2
                in case download_to_temp E MkstempRelease releases ''Lon.exe'' w3 of
                     (download, w4) \<Rightarrow>
                       if \<not> truthy download then
                         Inl (finish DownloadFailed 1
                                (log ''Failed to download new release. Aborting.'' w4))
                       else
                         Inr (\<lparr>l_releases_url = releases,
                               l_checksum_url = checksum_url,
                               l_process_name = process_name,
                               l_install_path = install,
                               l_backup_path = backup_dir,
                               l_expected_digest = expected_digest,
                               l_download_path = the download\<rparr>, w4)))"

text \<open>\<^verbatim>\<open>main\<close>, lines 234-256, and on to line 274.\<close>

definition config_path :: "env \<Rightarrow> path" where
  "config_path E = os_path_join (dirname (argv0 E)) ''updater.config.json''"

definition main_to_274 :: "env \<Rightarrow> world \<Rightarrow> result + locals \<times> world" where
  "main_to_274 E w =
     (if \<not> config_exists E then
        Inl (finish ConfigMissing 1
               (w\<lparr>stderr := stderr w @ [''Configuration file not found: '' @ config_path E]\<rparr>))
      else
        (case load_config E of
           Inl e \<Rightarrow> Inl (uncaught e w)
         | Inr config \<Rightarrow>
             (case fault E SetupLogging of
                Some e \<Rightarrow> Inl (uncaught e w)
              | None \<Rightarrow>
                  (let w1 = log (''Using config: '' @ config_path E)
                              (log ''========== Starting Lon Updater =========='' w);
                       process_name = (case app_process_name config of
                                         None \<Rightarrow> ''Lon.exe'' | Some n \<Rightarrow> n)
                   in if \<not> truthy (releases_url config) \<or> \<not> truthy (expected_sha256_url config)
                         \<or> \<not> truthy (install_path config) \<or> \<not> truthy (backup_path config)
                      then
                        Inl (finish ConfigIncomplete 1
                               (log ''Configuration is missing required fields (releases_url, expected_sha256_url, install_path, backup_path)'' w1))
                      else
                        main_258_to_274 E (the (releases_url config))
                          (the (expected_sha256_url config)) process_name
                          (the (install_path config)) (the (backup_path config)) w1))))"

text \<open>\<^verbatim>\<open>main\<close>, lines 234-337.\<close>

definition main :: "env \<Rightarrow> world \<Rightarrow> result" where
  "main E w =
     (case main_to_274 E w of
        Inl r \<Rightarrow> r
      | Inr (l, w1) \<Rightarrow>
          main_from_274 E (l_expected_digest l) (l_download_path l) (l_process_name l)
            (l_install_path l) (l_backup_path l) w1)"

subsection \<open>A concrete installation\<close>

text \<open>One installation to run the model on: the updater in \<^verbatim>\<open>/app\<close>, the installed
  file \<^verbatim>\<open>/app/lon.bin\<close>, backups under \<^verbatim>\<open>/app/bak\<close>, a release whose body is
  \<^verbatim>\<open>new\<close>, and a stand-in digest that renders the content itself. The text of the
  checksum file, the user's answers and the failing calls are the parameters.\<close>

definition example_config :: config where
  "example_config =
     \<lparr>releases_url = Some ''http://h/lon.exe'',
      expected_sha256_url = Some ''http://h/lon.sha'',
      app_process_name = None,
      install_path = Some ''/app/lon.bin'',
      backup_path = Some ''/app/bak''\<rparr>"

definition example_env ::
  "string \<Rightarrow> string list \<Rightarrow> (site \<Rightarrow> exn option) \<Rightarrow> (csite \<Rightarrow> copy_fault) \<Rightarrow> env" where
  "example_env checksum_text answers flt cflt =
     \<lparr>argv0 = ''/app/updater.py'',
      config_exists = True,
      load_config = Inr example_config,
      os_nt = False,
      urlopen = (\<lambda>u. if u = ''http://h/lon.sha'' then Response 200 checksum_text None
                     else Response 200 ''new'' None),
      mkstemp_stem = (\<lambda>s. if s = MkstempChecksum then ''/tmp/a'' else ''/tmp/b''),
      create_mode = 420,
      hexdigest = (\<lambda>b. b),
      now = \<lparr>year = 2026, month = 1, day = 4, hour = 7, minute = 8, second = 9\<rparr>,
      message_box = Inr 6,
      stdin_lines = answers,
      tasklist = (\<lambda>k. Inr []),
      taskkill = None,
      fault = flt,
      copy_fault = cflt\<rparr>"

definition no_fault :: "site \<Rightarrow> exn option" where
  "no_fault s = None"

definition no_copy_fault :: "csite \<Rightarrow> copy_fault" where
  "no_copy_fault s = CopyOk"

definition example_world :: "bytes \<Rightarrow> world" where
  "example_world installed =
     \<lparr>files = [''/app/lon.bin'' \<mapsto> (installed, 493)],
      dirs = {''/app''},
      logged = [],
      stderr = []\<rparr>"

definition faults_at :: "site list \<Rightarrow> exn \<Rightarrow> site \<Rightarrow> exn option" where
  "faults_at sites e s = (if s \<in> set sites then Some e else None)"

definition copy_fault_at :: "csite \<Rightarrow> copy_fault \<Rightarrow> csite \<Rightarrow> copy_fault" where
  "copy_fault_at site cf s = (if s = site then cf else CopyOk)"

definition example_downloaded :: "path \<Rightarrow> bytes \<Rightarrow> world" where
  "example_downloaded install installed =
     \<lparr>files = [install \<mapsto> (installed, 493), ''/tmp/b.exe'' \<mapsto> (''new'', 384)],
      dirs = {''/app'', ''/tmp''},
      logged = [],
      stderr = []\<rparr>"

text \<open>The same environment with a release whose transfer breaks after the first byte.\<close>

definition broken_release :: "env \<Rightarrow> env" where
  "broken_release E =
     E\<lparr>urlopen := (\<lambda>u. if u = ''http://h/lon.sha'' then urlopen E u
                        else Response 200 ''new'' (Some (1, URLError)))\<rparr>"

section \<open>Properties\<close>

subsection \<open>Trimming and splitting\<close>

lemma rstrip_append:
  assumes "t \<noteq> []" "\<not> P (last t)"
  shows "rev (dropWhile P (rev (t @ r))) = t @ rev (dropWhile P (rev r))"
proof -
  from assms obtain t' x where t: "t = t' @ [x]" and x: "\<not> P x"
    by (cases t rule: rev_cases) auto
  show ?thesis
  proof (cases "\<forall>x\<in>set r. P x")
    case True
    with x show ?thesis by (simp add: t dropWhile_append)
  next
    case False
    then show ?thesis by (auto simp: dropWhile_append)
  qed
qed

lemma strip_id: "\<forall>c \<in> set t. \<not> is_space c \<Longrightarrow> strip t = t"
proof (cases t rule: rev_cases)
  case Nil
  then show ?thesis by (simp add: strip_def)
next
  case (snoc ys y)
  assume a: "\<forall>c \<in> set t. \<not> is_space c"
  then have "dropWhile is_space t = t" by (cases t) auto
  moreover have "dropWhile is_space (rev t) = rev t" using a snoc by simp
  ultimately show ?thesis by (simp add: strip_def)
qed

lemma strip_cons:
  assumes "dropWhile is_space s = t @ r" "t \<noteq> []" "\<not> is_space (last t)"
  shows "strip s = t @ rev (dropWhile is_space (rev r))"
  unfolding strip_def assms(1) using assms(2,3) by (rule rstrip_append)

lemma strip_no_leading: "dropWhile is_space (strip s) = strip s"
proof (cases "dropWhile is_space s = []")
  case True
  have "strip s = []" unfolding strip_def True by simp
  then show ?thesis by simp
next
  case False
  then obtain c cs where cs: "dropWhile is_space s = [c] @ cs" by (cases "dropWhile is_space s") auto
  from False have "\<not> is_space (hd (dropWhile is_space s))" by (rule hd_dropWhile)
  with cs have c: "\<not> is_space c" by simp
  have "strip s = [c] @ rev (dropWhile is_space (rev cs))"
    using cs by (rule strip_cons) (use c in auto)
  then show ?thesis using c by simp
qed

lemma parse_checksum_strip:
  "parse_checksum text =
     (if strip text = [] then None
      else Some (takeWhile (\<lambda>c. \<not> is_space c) (strip text)))"
proof (cases "strip text = []")
  case True
  then show ?thesis by (simp add: parse_checksum_def split_ws.simps[of "[]"])
next
  case False
  have "split_ws (strip text) = takeWhile (\<lambda>c. \<not> is_space c) (strip text)
          # split_ws (dropWhile (\<lambda>c. \<not> is_space c) (strip text))"
    using False by (subst split_ws.simps) (simp only: strip_no_leading Let_def if_False)
  moreover have "strip (takeWhile (\<lambda>c. \<not> is_space c) (strip text)) = takeWhile (\<lambda>c. \<not> is_space c) (strip text)"
    by (rule strip_id) (auto dest: set_takeWhileD)
  ultimately show ?thesis using False by (simp add: parse_checksum_def)
qed

lemma takeWhile_strip:
  "takeWhile (\<lambda>c. \<not> is_space c) (strip s) = takeWhile (\<lambda>c. \<not> is_space c) (dropWhile is_space s)"
proof (cases "dropWhile is_space s = []")
  case True
  have "strip s = []" unfolding strip_def True by simp
  then show ?thesis unfolding True by simp
next
  case False
  define t where "t = takeWhile (\<lambda>c. \<not> is_space c) (dropWhile is_space s)"
  define r where "r = dropWhile (\<lambda>c. \<not> is_space c) (dropWhile is_space s)"
  from False have c: "\<not> is_space (hd (dropWhile is_space s))" by (rule hd_dropWhile)
  have tr: "dropWhile is_space s = t @ r" by (simp add: t_def r_def)
  have tne: "t \<noteq> []" using False c unfolding t_def by (cases "dropWhile is_space s") auto
  have tl: "\<not> is_space (last t)" using tne unfolding t_def
    by (metis last_in_set set_takeWhileD)
  have st: "strip s = t @ rev (dropWhile is_space (rev r))"
    using tr tne tl by (rule strip_cons)
  have tall: "\<forall>c \<in> set t. \<not> is_space c" unfolding t_def by (auto dest: set_takeWhileD)
  define z where "z = rev (dropWhile is_space (rev r))"
  have z: "z = [] \<or> (\<exists>d zs. z = d # zs \<and> is_space d)"
  proof (cases r)
    case Nil
    then show ?thesis by (simp add: z_def)
  next
    case (Cons d ds)
    have "r \<noteq> []" using Cons by simp
    then have "\<not> \<not> is_space (hd r)" unfolding r_def by (rule hd_dropWhile)
    with Cons have d: "is_space d" by simp
    show ?thesis
    proof (cases "\<forall>x \<in> set ds. is_space x")
      case True
      then show ?thesis using d by (simp add: z_def Cons dropWhile_append)
    next
      case False
      then have "z = d # rev (dropWhile is_space (rev ds))"
        by (auto simp: z_def Cons dropWhile_append)
      then show ?thesis using d by blast
    qed
  qed
  have "takeWhile (\<lambda>c. \<not> is_space c) (t @ z) = t"
    using z tall by (auto simp: takeWhile_append)
  then have "takeWhile (\<lambda>c. \<not> is_space c) (t @ rev (dropWhile is_space (rev r))) = t"
    by (simp only: z_def)
  then show ?thesis by (simp add: st t_def)
qed


text \<open>
  C8. The digest that \<^verbatim>\<open>read_remote_checksum\<close> takes from the text of the checksum file
  (lines 121-126) is the first white-space-separated token: the text
  \<^verbatim>\<open>BBB111  lon.exe\<close> followed by a newline gives \<^verbatim>\<open>BBB111\<close>; a text that is empty
  after trimming gives no digest, and any other text gives the run of characters from
  its first character that is not white space up to the next white space. When the
  checksum file was downloaded and read, the function returns exactly that.
\<close>

theorem parse_checksum_first_token:
  "parse_checksum (''BBB111  lon.exe'' @ [CHR 0x0A]) = Some ''BBB111'' \<and>
   parse_checksum text =
     (if strip text = [] then None
      else Some (takeWhile (\<lambda>c. \<not> is_space c) (dropWhile is_space text))) \<and>
   (fst (download_to_temp E MkstempChecksum url ''checksum'' w) = Some p \<and> p \<noteq> [] \<and>
    read_text (fault E ReadChecksum) p (snd (download_to_temp E MkstempChecksum url ''checksum'' w))
      = Inr text
    \<longrightarrow> fst (read_remote_checksum E url w) = parse_checksum text)"
proof (intro conjI impI)
  show "parse_checksum (''BBB111  lon.exe'' @ [CHR 0x0A]) = Some ''BBB111''"
    by code_simp
  show "parse_checksum text =
     (if strip text = [] then None
      else Some (takeWhile (\<lambda>c. \<not> is_space c) (dropWhile is_space text)))"
    by (simp only: parse_checksum_strip takeWhile_strip)
next
  assume a: "fst (download_to_temp E MkstempChecksum url ''checksum'' w) = Some p \<and> p \<noteq> [] \<and>
    read_text (fault E ReadChecksum) p (snd (download_to_temp E MkstempChecksum url ''checksum'' w))
      = Inr text"
  obtain r w1 where d: "download_to_temp E MkstempChecksum url ''checksum'' w = (r, w1)"
    by (cases "download_to_temp E MkstempChecksum url ''checksum'' w")
  with a have "r = Some p" "p \<noteq> []" "read_text (fault E ReadChecksum) p w1 = Inr text"
    by simp_all
  then show "fst (read_remote_checksum E url w) = parse_checksum text"
    by (simp add: read_remote_checksum_def d split: option.splits)
qed

theorem parse_checksum_first_token_witness:
  "fst (download_to_temp (example_env ''  NEW  lon.exe'' [] no_fault no_copy_fault)
          MkstempChecksum ''http://h/lon.sha'' ''checksum'' (example_world ''old''))
     = Some ''/tmp/a.sha'' \<and>
   fst (read_remote_checksum (example_env ''  NEW  lon.exe'' [] no_fault no_copy_fault)
          ''http://h/lon.sha'' (example_world ''old''))
     = Some ''NEW'' \<and>
   parse_checksum ''  NEW  lon.exe'' = Some ''NEW''"
proof -
  let ?E = "example_env ''  NEW  lon.exe'' [] no_fault no_copy_fault"
  let ?d = "download_to_temp ?E MkstempChecksum ''http://h/lon.sha'' ''checksum''
              (example_world ''old'')"
  have h: "fst ?d = Some ''/tmp/a.sha'' \<and> ''/tmp/a.sha'' \<noteq> [] \<and>
           read_text (fault ?E ReadChecksum) ''/tmp/a.sha'' (snd ?d) = Inr ''  NEW  lon.exe''"
    by code_simp
  have p: "parse_checksum ''  NEW  lon.exe'' = Some ''NEW''"
    by code_simp
  from parse_checksum_first_token
         [of "''  NEW  lon.exe''" ?E "''http://h/lon.sha''" "example_world ''old''" "''/tmp/a.sha''"]
       h p
  show ?thesis by simp
qed

subsection \<open>What the operating-system calls change\<close>

lemma log_fields [simp]:
  "files (log m w) = files w" "dirs (log m w) = dirs w"
  "logged (log m w) = logged w @ [m]" "stderr (log m w) = stderr w"
  by (simp_all add: log_def)

lemma os_remove_Inr:
  "os_remove f p w = Inr w' \<Longrightarrow>
     files w' = (files w)(p := None) \<and> dirs w' = dirs w \<and> logged w' = logged w \<and>
     stderr w' = stderr w \<and> f = None \<and> p \<notin> dirs w \<and> files w p \<noteq> None"
  by (auto simp: os_remove_def split: option.splits if_splits)

lemma os_makedirs_Inr:
  "os_makedirs f p w = Inr w' \<Longrightarrow>
     files w' = files w \<and> logged w' = logged w \<and> stderr w' = stderr w \<and>
     dirs w' = insert p (dirs w) \<and> p \<noteq> []"
  by (auto simp: os_makedirs_def split: option.splits if_splits)

lemma os_makedirs_new:
  "os_makedirs f p w = Inr w' \<Longrightarrow> p \<in> dirs w \<or> files w p = None"
  by (cases "files w p") (auto simp: os_makedirs_def split: option.splits if_splits)

lemma copy2_write_fault:
  "src \<notin> dirs w \<Longrightarrow> files w src = Some (c, m) \<Longrightarrow> copy_target src dst w \<noteq> src \<Longrightarrow>
   copy_target src dst w \<notin> dirs w \<Longrightarrow>
   copy2 E (CopyFailWrite n e) src dst w =
     (Some e, w\<lparr>files := (files w)(copy_target src dst w \<mapsto>
        (take n c, case files w (copy_target src dst w) of
                     None \<Rightarrow> create_mode E | Some (c', m') \<Rightarrow> m'))\<rparr>)"
  by (simp add: copy2_def Let_def)

lemma copy2_stat_fault:
  "src \<notin> dirs w \<Longrightarrow> files w src = Some (c, m) \<Longrightarrow> copy_target src dst w \<noteq> src \<Longrightarrow>
   copy_target src dst w \<notin> dirs w \<Longrightarrow>
   copy2 E (CopyFailStat e) src dst w =
     (Some e, w\<lparr>files := (files w)(copy_target src dst w \<mapsto>
        (c, case files w (copy_target src dst w) of
              None \<Rightarrow> create_mode E | Some (c', m') \<Rightarrow> m'))\<rparr>)"
  by (simp add: copy2_def Let_def)

lemma copy2_open_fault: "copy2 E (CopyFailOpen e) src dst w = (Some e, w)"
  by (simp add: copy2_def Let_def)

lemma copy2_frame:
  "copy2 E cf src dst w = (r, w') \<Longrightarrow>
     dirs w' = dirs w \<and> logged w' = logged w \<and> stderr w' = stderr w \<and>
     (\<forall>p. p \<noteq> copy_target src dst w \<longrightarrow> files w' p = files w p) \<and>
     files w' src = files w src"
  by (auto simp: copy2_def Let_def split: copy_fault.splits option.splits if_splits prod.splits)


lemma copy2_Some:
  "copy2 E cf src dst w = (Some e, w') \<Longrightarrow>
     files w' (copy_target src dst w) = files w (copy_target src dst w) \<or>
     (\<exists>c m n m0. files w src = Some (c, m) \<and>
        files w' (copy_target src dst w) = Some (take n c, m0))"
proof (cases cf)
  case (CopyFailStat e')
  assume "copy2 E cf src dst w = (Some e, w')"
  then show ?thesis
    using take_all[of _ "length (fst (the (files w src)))"]
    by (auto simp: copy2_def Let_def CopyFailStat split: option.splits if_splits prod.splits
             intro: exI[of _ "length (fst (the (files w src)))"])
qed (auto simp: copy2_def Let_def split: option.splits if_splits prod.splits)

subsection \<open>Paths\<close>

lemma basename_no_slash: "CHR ''/'' \<notin> set (basename p)"
  by (auto simp: basename_def dest: set_takeWhileD)

lemma head_basename: "path_head p @ basename p = p"
proof -
  have "rev (takeWhile (\<lambda>c. c \<noteq> CHR ''/'') (rev p) @ dropWhile (\<lambda>c. c \<noteq> CHR ''/'') (rev p)) = p"
    by simp
  then show ?thesis unfolding path_head_def basename_def rev_append .
qed

lemma length_dirname: "length (dirname p) \<le> length p"
proof -
  have "length (path_head p) \<le> length p"
    by (metis head_basename le_add1 length_append)
  moreover have "length (rev (dropWhile (\<lambda>c. c = CHR ''/'') (rev (path_head p)))) \<le> length (path_head p)"
    by (simp add: length_dropWhile_le[of _ "rev (path_head p)", simplified])
  ultimately show ?thesis by (auto simp: dirname_def Let_def)
qed

lemma join_cases:
  "CHR ''/'' \<notin> set n \<Longrightarrow>
     os_path_join a n = a @ n \<and> (a = [] \<or> last a = CHR ''/'') \<or> os_path_join a n = a @ ''/'' @ n"
  by (cases n) (auto simp: os_path_join_def startswith_def)

lemma join_prefix: "CHR ''/'' \<notin> set n \<Longrightarrow> \<exists>x. os_path_join a n = a @ x"
  using join_cases[of n a] by auto




lemma splitext_append: "fst (splitext p) @ snd (splitext p) = p"
proof (cases "CHR ''.'' \<in> set (basename p)")
  case False
  then show ?thesis by (simp add: splitext_def)
next
  case True
  define r where "r = rev (basename p)"
  define tk where "tk = takeWhile (\<lambda>c. c \<noteq> CHR ''.'') r"
  define dr where "dr = dropWhile (\<lambda>c. c \<noteq> CHR ''.'') r"
  have "CHR ''.'' \<in> set r" using True by (simp add: r_def)
  then have ne: "dr \<noteq> []" by (simp add: dr_def dropWhile_eq_Nil_conv)
  then have "\<not> hd dr \<noteq> CHR ''.''" unfolding dr_def by (rule hd_dropWhile)
  with ne obtain rest where d: "dr = CHR ''.'' # rest" by (cases dr) auto
  have "r = tk @ dr" by (simp add: tk_def dr_def)
  then have "rev r = rev rest @ CHR ''.'' # rev tk" by (simp add: d)
  then have b: "basename p = rev (tl dr) @ CHR ''.'' # rev tk" by (simp add: r_def d)
  have "path_head p @ rev (tl dr) @ CHR ''.'' # rev tk = p"
    using head_basename[of p] b by simp
  then show ?thesis
    using True by (simp add: splitext_def Let_def r_def[symmetric] dr_def[symmetric] tk_def[symmetric])
qed


lemma stem_no_slash: "CHR ''/'' \<notin> set (fst (splitext (basename p)))"
proof -
  have "set (fst (splitext (basename p))) \<subseteq> set (basename p)"
    by (metis splitext_append set_append Un_upper1)
  then show ?thesis using basename_no_slash by blast
qed

lemma of_char_digit: "of_char (digit d) = 48 + d mod 10"
proof -
  have "d mod 10 < 10" by simp
  then have "(48 + d mod 10) mod 256 = 48 + d mod 10" by simp
  then show ?thesis by (simp add: digit_def)
qed

lemma digit_no_slash: "digit d \<noteq> CHR ''/''" "CHR ''/'' \<noteq> digit d"
proof -
  show "digit d \<noteq> CHR ''/''"
  proof
    assume "digit d = CHR ''/''"
    then have "of_char (digit d) = (of_char (CHR ''/'') :: nat)" by (rule arg_cong)
    then show False by (simp add: of_char_digit)
  qed
  then show "CHR ''/'' \<noteq> digit d" by (rule not_sym)
qed

lemma stamp_no_slash: "CHR ''/'' \<notin> set (strftime_stamp t)"
  by (auto simp: strftime_stamp_def pad2_def pad4_def digit_no_slash)

lemma backup_name_no_slash: "CHR ''/'' \<notin> set (backup_name E src)"
  using stem_no_slash stamp_no_slash by (auto simp: backup_name_def)

subsection \<open>backup_file\<close>



lemma backup_path_neq_dir: "os_path_join bd (backup_name E src) \<noteq> bd"
proof -
  have "backup_name E src \<noteq> []" by (simp add: backup_name_def)
  with join_cases[OF backup_name_no_slash, of bd E src] show ?thesis by auto
qed





lemma backup_file_None:
  assumes "backup_file E src bd w = (None, w')"
  shows "(\<exists>e. os_makedirs (fault E BackupMakedirs) bd w = Inl e \<and>
              w' = log (''Failed to create backup of '' @ src @ '': '' @ str_exn e) w) \<or>
         (\<exists>e w1 w2. os_makedirs (fault E BackupMakedirs) bd w = Inr w1 \<and>
              copy2 E (copy_fault E BackupCopy) src (os_path_join bd (backup_name E src)) w1 = (Some e, w2) \<and>
              w' = log (''Failed to create backup of '' @ src @ '': '' @ str_exn e) w2)"
  using assms
  by (auto simp: backup_file_def Let_def split: sum.splits prod.splits option.splits)

lemma copy_target_makedirs:
  assumes "os_makedirs f bd w = Inr w1" "b \<noteq> bd"
  shows "copy_target src b w1 = copy_target src b w"
  using os_makedirs_Inr[OF assms(1)] assms(2) by (simp add: copy_target_def)






lemma backup_target_neq_dir:
  "copy_target src (os_path_join bd (backup_name E src)) w \<noteq> bd"
proof -
  let ?b = "os_path_join bd (backup_name E src)"
  have "backup_name E src \<noteq> []" by (simp add: backup_name_def)
  with join_cases[OF backup_name_no_slash, of bd E src]
  have l: "length bd < length ?b" by auto
  from join_prefix[OF basename_no_slash, of ?b src]
  have "length ?b \<le> length (os_path_join ?b (basename src))" by auto
  with l have "length bd < length (copy_target src ?b w)" by (simp add: copy_target_def)
  then show ?thesis by auto
qed

text \<open>
  C5 (as amended). A backup that fails returns \<^verbatim>\<open>None\<close> and logs the failure. It removes
  nothing: the source and every file other than the destination of the copy are as
  before, and no file that existed is gone. What the copy had written when it failed
  stays: after a failure in the middle of the content the destination holds the bytes
  written so far, after a failure of \<^verbatim>\<open>copystat\<close> it holds the whole content with the
  mode it was opened with; a copy that fails before it opens the destination changes no
  file.
\<close>

theorem backup_file_failure_keeps_partial_file:
  assumes "backup_file E src bd w = (None, w')"
  shows "(\<exists>e. logged w' = logged w @ [''Failed to create backup of '' @ src @ '': '' @ str_exn e]) \<and>
         files w' src = files w src \<and>
         (\<forall>p. p \<noteq> copy_target src (os_path_join bd (backup_name E src)) w \<longrightarrow>
              files w' p = files w p) \<and>
         (\<forall>p. files w p \<noteq> None \<longrightarrow> files w' p \<noteq> None) \<and>
         (\<forall>n e c m. copy_fault E BackupCopy = CopyFailWrite n e \<and>
              \<not> isl (os_makedirs (fault E BackupMakedirs) bd w) \<and>
              src \<notin> dirs w \<and> files w src = Some (c, m) \<and>
              copy_target src (os_path_join bd (backup_name E src)) w \<noteq> src \<and>
              copy_target src (os_path_join bd (backup_name E src)) w \<notin> dirs w
              \<longrightarrow> files w' (copy_target src (os_path_join bd (backup_name E src)) w) =
                    Some (take n c,
                          case files w (copy_target src (os_path_join bd (backup_name E src)) w) of
                            None \<Rightarrow> create_mode E | Some (c', m') \<Rightarrow> m')) \<and>
         (\<forall>e c m. copy_fault E BackupCopy = CopyFailStat e \<and>
              \<not> isl (os_makedirs (fault E BackupMakedirs) bd w) \<and>
              src \<notin> dirs w \<and> files w src = Some (c, m) \<and>
              copy_target src (os_path_join bd (backup_name E src)) w \<noteq> src \<and>
              copy_target src (os_path_join bd (backup_name E src)) w \<notin> dirs w
              \<longrightarrow> files w' (copy_target src (os_path_join bd (backup_name E src)) w) =
                    Some (c,
                          case files w (copy_target src (os_path_join bd (backup_name E src)) w) of
                            None \<Rightarrow> create_mode E | Some (c', m') \<Rightarrow> m')) \<and>
         (\<forall>e. copy_fault E BackupCopy = CopyFailOpen e \<longrightarrow> files w' = files w)"
proof -
  let ?b = "os_path_join bd (backup_name E src)"
  let ?t = "copy_target src ?b w"
  from backup_file_None[OF assms] show ?thesis
  proof (elim disjE exE conjE)
    fix e
    assume "os_makedirs (fault E BackupMakedirs) bd w = Inl e"
      and "w' = log (''Failed to create backup of '' @ src @ '': '' @ str_exn e) w"
    then show ?thesis by auto
  next
    fix e w1 w2
    assume mk: "os_makedirs (fault E BackupMakedirs) bd w = Inr w1"
      and cp: "copy2 E (copy_fault E BackupCopy) src ?b w1 = (Some e, w2)"
      and w': "w' = log (''Failed to create backup of '' @ src @ '': '' @ str_exn e) w2"
    note m = os_makedirs_Inr[OF mk]
    note t = copy_target_makedirs[OF mk backup_path_neq_dir, of src E src]
    note f = copy2_frame[OF cp]
    from copy2_Some[OF cp] have tg:
      "files w' ?t = files w ?t \<or>
       (\<exists>c m n m0. files w src = Some (c, m) \<and> files w' ?t = Some (take n c, m0))"
      unfolding t w' using m by simp
    have fr: "\<forall>p. p \<noteq> ?t \<longrightarrow> files w' p = files w p"
      using f m t by (simp add: w')
    have keep: "files w p \<noteq> None \<longrightarrow> files w' p \<noteq> None" for p
      using tg fr by (cases "p = ?t") auto
    have lg: "\<exists>e. logged w' = logged w @ [''Failed to create backup of '' @ src @ '': '' @ str_exn e]"
      using f m by (auto simp: w')
    have sr: "files w' src = files w src" using f m by (simp add: w')
    have d1: "?t \<notin> dirs w \<Longrightarrow> ?t \<notin> dirs w1"
      using m backup_target_neq_dir[of src bd E w] by simp
    have s1: "src \<notin> dirs w1" if "src \<notin> dirs w" "files w src = Some (c, m)" for c m
      using that m os_makedirs_new[OF mk] by auto
    have wr: "files w' ?t = Some (take n c, case files w ?t of None \<Rightarrow> create_mode E | Some (c', m') \<Rightarrow> m')"
      if a: "copy_fault E BackupCopy = CopyFailWrite n e'" "src \<notin> dirs w" "files w src = Some (c, m)"
        "?t \<noteq> src" "?t \<notin> dirs w" for n e' c m
    proof -
      have "copy2 E (CopyFailWrite n e') src ?b w1 =
              (Some e', w1\<lparr>files := (files w1)(copy_target src ?b w1 \<mapsto>
                 (take n c, case files w1 (copy_target src ?b w1) of
                              None \<Rightarrow> create_mode E | Some (c', m') \<Rightarrow> m'))\<rparr>)"
      proof (rule copy2_write_fault)
        show "src \<notin> dirs w1" by (rule s1[OF a(2,3)])
        show "files w1 src = Some (c, m)" using a(3) m by simp
        show "copy_target src ?b w1 \<noteq> src" unfolding t by (rule a(4))
        show "copy_target src ?b w1 \<notin> dirs w1" unfolding t using d1 a(5) by simp
      qed
      with cp a(1) have "w2 = w1\<lparr>files := (files w1)(copy_target src ?b w1 \<mapsto>
                 (take n c, case files w1 (copy_target src ?b w1) of
                              None \<Rightarrow> create_mode E | Some (c', m') \<Rightarrow> m'))\<rparr>"
        by simp
      then show ?thesis unfolding w' t using m by simp
    qed
    have st: "files w' ?t = Some (c, case files w ?t of None \<Rightarrow> create_mode E | Some (c', m') \<Rightarrow> m')"
      if a: "copy_fault E BackupCopy = CopyFailStat e'" "src \<notin> dirs w" "files w src = Some (c, m)"
        "?t \<noteq> src" "?t \<notin> dirs w" for e' c m
    proof -
      have "copy2 E (CopyFailStat e') src ?b w1 =
              (Some e', w1\<lparr>files := (files w1)(copy_target src ?b w1 \<mapsto>
                 (c, case files w1 (copy_target src ?b w1) of
                       None \<Rightarrow> create_mode E | Some (c', m') \<Rightarrow> m'))\<rparr>)"
      proof (rule copy2_stat_fault)
        show "src \<notin> dirs w1" by (rule s1[OF a(2,3)])
        show "files w1 src = Some (c, m)" using a(3) m by simp
        show "copy_target src ?b w1 \<noteq> src" unfolding t by (rule a(4))
        show "copy_target src ?b w1 \<notin> dirs w1" unfolding t using d1 a(5) by simp
      qed
      with cp a(1) have "w2 = w1\<lparr>files := (files w1)(copy_target src ?b w1 \<mapsto>
                 (c, case files w1 (copy_target src ?b w1) of
                       None \<Rightarrow> create_mode E | Some (c', m') \<Rightarrow> m'))\<rparr>"
        by simp
      then show ?thesis unfolding w' t using m by simp
    qed
    have op: "files w' = files w" if "copy_fault E BackupCopy = CopyFailOpen e'" for e'
      using cp that m unfolding w' by (simp add: copy2_open_fault)
    from lg sr fr keep wr st op show ?thesis by blast
  qed
qed

theorem backup_file_failure_keeps_partial_file_witness:
  "fst (backup_file (example_env [] [] no_fault (copy_fault_at BackupCopy (CopyFailWrite 1 OSError)))
          ''/app/lon.bin'' ''/app/bak'' (example_world ''old'')) = None \<and>
   files (snd (backup_file
                 (example_env [] [] no_fault (copy_fault_at BackupCopy (CopyFailWrite 1 OSError)))
                 ''/app/lon.bin'' ''/app/bak'' (example_world ''old''))) ''/app/lon.bin''
     = files (example_world ''old'') ''/app/lon.bin'' \<and>
   files (snd (backup_file
                 (example_env [] [] no_fault (copy_fault_at BackupCopy (CopyFailWrite 1 OSError)))
                 ''/app/lon.bin'' ''/app/bak'' (example_world ''old'')))
         ''/app/bak/lon_20260104_070809.exe'' = Some (''o'', 420)"
proof -
  let ?E = "example_env [] [] no_fault (copy_fault_at BackupCopy (CopyFailWrite 1 OSError))"
  let ?r = "backup_file ?E ''/app/lon.bin'' ''/app/bak'' (example_world ''old'')"
  let ?t = "copy_target ''/app/lon.bin'' (os_path_join ''/app/bak'' (backup_name ?E ''/app/lon.bin''))
              (example_world ''old'')"
  have h: "fst ?r = None" by code_simp
  then have p: "?r = (None, snd ?r)" by (simp add: prod_eq_iff)
  have g: "copy_fault ?E BackupCopy = CopyFailWrite 1 OSError \<and>
           \<not> isl (os_makedirs (fault ?E BackupMakedirs) ''/app/bak'' (example_world ''old'')) \<and>
           ''/app/lon.bin'' \<notin> dirs (example_world ''old'') \<and>
           files (example_world ''old'') ''/app/lon.bin'' = Some (''old'', 493) \<and>
           ?t \<noteq> ''/app/lon.bin'' \<and> ?t \<notin> dirs (example_world ''old'')"
    by code_simp
  have t: "?t = ''/app/bak/lon_20260104_070809.exe''" by code_simp
  have n: "files (example_world ''old'') ''/app/bak/lon_20260104_070809.exe'' = None"
    "take 1 ''old'' = ''o''" "create_mode ?E = 420"
    by code_simp+
  from backup_file_failure_keeps_partial_file[OF p]
  have "files (snd ?r) ''/app/lon.bin'' = files (example_world ''old'') ''/app/lon.bin''"
    and "\<And>n e c m. copy_fault ?E BackupCopy = CopyFailWrite n e \<and>
              \<not> isl (os_makedirs (fault ?E BackupMakedirs) ''/app/bak'' (example_world ''old'')) \<and>
              ''/app/lon.bin'' \<notin> dirs (example_world ''old'') \<and>
              files (example_world ''old'') ''/app/lon.bin'' = Some (c, m) \<and>
              ?t \<noteq> ''/app/lon.bin'' \<and> ?t \<notin> dirs (example_world ''old'')
              \<Longrightarrow> files (snd ?r) ?t =
                    Some (take n c, case files (example_world ''old'') ?t of
                                      None \<Rightarrow> create_mode ?E | Some (c', m') \<Rightarrow> m')"
    by blast+
  from this(1) this(2)[OF g] h n show ?thesis unfolding t by simp
qed

text \<open>
  The claim as stated fails when the copy breaks after its first byte: the backup
  reports the failure and the one-byte file stays where the backup should have been.
\<close>

theorem backup_file_partial_counterexample:
  "fst (backup_file (example_env [] [] no_fault (copy_fault_at BackupCopy (CopyFailWrite 1 OSError)))
          ''/app/lon.bin'' ''/app/bak'' (example_world ''old'')) = None \<and>
   files (example_world ''old'') ''/app/bak/lon_20260104_070809.exe'' = None \<and>
   files (snd (backup_file
                 (example_env [] [] no_fault (copy_fault_at BackupCopy (CopyFailWrite 1 OSError)))
                 ''/app/lon.bin'' ''/app/bak'' (example_world ''old'')))
         ''/app/bak/lon_20260104_070809.exe'' = Some (''o'', 420)"
  by code_simp

subsection \<open>atomic_replace\<close>

lemma tmp_target_neq_dest: "copy_target src (dest @ ''.new'') w0 \<noteq> dest"
proof (cases "dest @ ''.new'' \<in> dirs w0")
  case True
  from join_prefix[OF basename_no_slash, of "dest @ ''.new''" src]
  obtain x where "os_path_join (dest @ ''.new'') (basename src) = (dest @ ''.new'') @ x" by blast
  then have "length (os_path_join (dest @ ''.new'') (basename src)) > length dest" by simp
  with True show ?thesis by (auto simp: copy_target_def)
next
  case False
  then show ?thesis by (simp add: copy_target_def)
qed

lemma dirname_neq_tmp: "dirname dest \<noteq> dest @ x # xs"
proof
  assume "dirname dest = dest @ x # xs"
  then have "length (dirname dest) = length (dest @ x # xs)" by (rule arg_cong)
  with length_dirname[of dest] show False by simp
qed

lemma replace_cleanup_frame:
  "dirs (replace_cleanup E t w) = dirs w \<and> logged (replace_cleanup E t w) = logged w \<and>
   stderr (replace_cleanup E t w) = stderr w \<and>
   (\<forall>p. p \<noteq> t \<longrightarrow> files (replace_cleanup E t w) p = files w p)"
  by (auto simp: replace_cleanup_def dest!: os_remove_Inr split: sum.splits)

lemma replace_cleanup_removes:
  "fault E ReplaceCleanup = None \<Longrightarrow> t \<notin> dirs w \<Longrightarrow> files (replace_cleanup E t w) t = None"
  by (auto simp: replace_cleanup_def os_path_exists_def os_remove_def split: sum.splits)

lemma atomic_replace_False:
  assumes "atomic_replace E src dest w = (False, w')"
  shows "(\<exists>e. os_makedirs (fault E ReplaceMakedirs) (dirname dest) w = Inl e \<and>
              w' = log (''Failed to replace '' @ dest @ '': '' @ str_exn e) w) \<or>
         (\<exists>w1 cr w2 e. os_makedirs (fault E ReplaceMakedirs) (dirname dest) w = Inr w1 \<and>
              copy2 E (copy_fault E ReplaceCopy) src (dest @ ''.new'') w1 = (cr, w2) \<and>
              (cr = None \<longrightarrow> (\<exists>e'. os_replace (fault E ReplaceMove) (dest @ ''.new'') dest w2 = Inl e')) \<and>
              w' = replace_cleanup E (dest @ ''.new'')
                     (log (''Failed to replace '' @ dest @ '': '' @ str_exn e) w2))"
  using assms
  by (auto simp: atomic_replace_def Let_def split: sum.splits prod.splits option.splits)

lemma atomic_replace_False_frame:
  assumes "atomic_replace E src dest w = (False, w')"
  shows "(\<exists>e. logged w' = logged w @ [''Failed to replace '' @ dest @ '': '' @ str_exn e]) \<and>
         stderr w' = stderr w \<and> dirs w \<subseteq> dirs w' \<and> dirs w' \<subseteq> insert (dirname dest) (dirs w) \<and>
         (\<forall>p. p \<noteq> dest @ ''.new'' \<and> p \<noteq> copy_target src (dest @ ''.new'') w \<longrightarrow>
              files w' p = files w p)"
proof -
  from atomic_replace_False[OF assms] show ?thesis
  proof (elim disjE exE conjE)
    fix e
    assume "w' = log (''Failed to replace '' @ dest @ '': '' @ str_exn e) w"
    then show ?thesis by auto
  next
    fix w1 cr w2 e
    assume mk: "os_makedirs (fault E ReplaceMakedirs) (dirname dest) w = Inr w1"
      and cp: "copy2 E (copy_fault E ReplaceCopy) src (dest @ ''.new'') w1 = (cr, w2)"
      and w': "w' = replace_cleanup E (dest @ ''.new'')
                     (log (''Failed to replace '' @ dest @ '': '' @ str_exn e) w2)"
    note m = os_makedirs_Inr[OF mk]
    have t: "copy_target src (dest @ ''.new'') w1 = copy_target src (dest @ ''.new'') w"
      using mk by (rule copy_target_makedirs) (simp add: dirname_neq_tmp[symmetric])
    note f = copy2_frame[OF cp]
    note c = replace_cleanup_frame[of E "dest @ ''.new''" "log (''Failed to replace '' @ dest @ '': '' @ str_exn e) w2"]
    show ?thesis using m t f c unfolding w' by auto
  qed
qed

text \<open>
  C1 (as amended). When \<^verbatim>\<open>atomic_replace\<close> fails, at whatever point, the destination
  holds exactly what it held before the call, and the temporary copy is never written to
  the destination itself. The sibling temporary file \<^verbatim>\<open>dest.new\<close> is gone afterwards
  provided the destination's directory could be made, \<^verbatim>\<open>dest.new\<close> is not a directory
  and the removal itself does not fail (a removal that fails is ignored).
\<close>

theorem atomic_replace_failure_keeps_dest:
  assumes "atomic_replace E src dest w = (False, w')"
  shows "files w' dest = files w dest \<and>
         (\<forall>w0. copy_target src (dest @ ''.new'') w0 \<noteq> dest) \<and>
         (\<not> isl (os_makedirs (fault E ReplaceMakedirs) (dirname dest) w) \<and>
            fault E ReplaceCleanup = None \<and> dest @ ''.new'' \<notin> dirs w
            \<longrightarrow> files w' (dest @ ''.new'') = None)"
proof (intro conjI allI impI)
  show "files w' dest = files w dest"
    using atomic_replace_False_frame[OF assms] tmp_target_neq_dest[of src dest w] by simp
  show "copy_target src (dest @ ''.new'') w0 \<noteq> dest" for w0
    by (rule tmp_target_neq_dest)
next
  assume a: "\<not> isl (os_makedirs (fault E ReplaceMakedirs) (dirname dest) w) \<and>
            fault E ReplaceCleanup = None \<and> dest @ ''.new'' \<notin> dirs w"
  from atomic_replace_False[OF assms] a obtain w1 cr w2 e where
    mk: "os_makedirs (fault E ReplaceMakedirs) (dirname dest) w = Inr w1"
    and cp: "copy2 E (copy_fault E ReplaceCopy) src (dest @ ''.new'') w1 = (cr, w2)"
    and w': "w' = replace_cleanup E (dest @ ''.new'')
                     (log (''Failed to replace '' @ dest @ '': '' @ str_exn e) w2)"
    by auto
  have "dest @ ''.new'' \<notin> dirs w2"
    using os_makedirs_Inr[OF mk] copy2_frame[OF cp] a dirname_neq_tmp[of dest "CHR ''.''" "''new''"]
    by auto
  then show "files w' (dest @ ''.new'') = None"
    unfolding w' using a by (intro replace_cleanup_removes) simp_all
qed

theorem atomic_replace_failure_keeps_dest_witness:
  "fst (atomic_replace (example_env [] [] (faults_at [ReplaceMove] PermissionError) no_copy_fault)
          ''/tmp/b.exe'' ''/app/lon.bin'' (example_downloaded ''/app/lon.bin'' ''old'')) = False \<and>
   files (snd (atomic_replace
                 (example_env [] [] (faults_at [ReplaceMove] PermissionError) no_copy_fault)
                 ''/tmp/b.exe'' ''/app/lon.bin'' (example_downloaded ''/app/lon.bin'' ''old'')))
         ''/app/lon.bin''
     = files (example_downloaded ''/app/lon.bin'' ''old'') ''/app/lon.bin'' \<and>
   files (snd (atomic_replace
                 (example_env [] [] (faults_at [ReplaceMove] PermissionError) no_copy_fault)
                 ''/tmp/b.exe'' ''/app/lon.bin'' (example_downloaded ''/app/lon.bin'' ''old'')))
         (''/app/lon.bin'' @ ''.new'') = None"
proof -
  let ?E = "example_env [] [] (faults_at [ReplaceMove] PermissionError) no_copy_fault"
  let ?w = "example_downloaded ''/app/lon.bin'' ''old''"
  let ?r = "atomic_replace ?E ''/tmp/b.exe'' ''/app/lon.bin'' ?w"
  have h: "fst ?r = False" by code_simp
  have g: "\<not> isl (os_makedirs (fault ?E ReplaceMakedirs) (dirname ''/app/lon.bin'') ?w) \<and>
           fault ?E ReplaceCleanup = None \<and> ''/app/lon.bin'' @ ''.new'' \<notin> dirs ?w"
    by code_simp
  from h have p: "?r = (False, snd ?r)" by (simp add: prod_eq_iff)
  from atomic_replace_failure_keeps_dest[OF p] h g
  show ?thesis by blast
qed

text \<open>
  The claim as stated fails when the move fails after the temporary copy and the removal
  of the temporary file fails as well: \<^verbatim>\<open>atomic_replace\<close> ignores the second failure and
  the copy stays beside the destination.
\<close>

theorem atomic_replace_temp_left_counterexample:
  "fst (atomic_replace
          (example_env [] [] (faults_at [ReplaceMove, ReplaceCleanup] PermissionError) no_copy_fault)
          ''/tmp/b.exe'' ''/app/lon.bin'' (example_downloaded ''/app/lon.bin'' ''old'')) = False \<and>
   files (snd (atomic_replace
          (example_env [] [] (faults_at [ReplaceMove, ReplaceCleanup] PermissionError) no_copy_fault)
          ''/tmp/b.exe'' ''/app/lon.bin'' (example_downloaded ''/app/lon.bin'' ''old'')))
         ''/app/lon.bin.new'' = Some (''new'', 384) \<and>
   files (example_downloaded ''/app/lon.bin'' ''old'') ''/app/lon.bin.new'' = None"
  by code_simp

subsection \<open>The exits of main\<close>

lemma finish_fields [simp]:
  "outcome (finish oc c w) = oc" "exit_code (finish oc c w) = c" "final (finish oc c w) = w"
  by (simp_all add: finish_def)

lemma uncaught_fields [simp]:
  "outcome (uncaught e w) = Uncaught e" "exit_code (uncaught e w) = 1" "final (uncaught e w) = w"
  by (simp_all add: uncaught_def)














subsection \<open>Fetching\<close>




subsection \<open>A checksum mismatch\<close>








subsection \<open>The download at the exits\<close>

text \<open>
  C3. The removal of the download is guarded at two exits only (lines 279-282 and
  331-334). At the exit of the user declining (lines 298-301) it is not: the run ends as
  declined, with the download removed, when \<^verbatim>\<open>os.remove\<close> succeeds; when it raises, the
  exception leaves \<^verbatim>\<open>main\<close> uncaught and the download stays. The removal is not
  delete-if-exists either: for a file that is already gone it raises
  \<^verbatim>\<open>FileNotFoundError\<close>. And a download whose transfer breaks returns no path and
  leaves its partly written temporary file behind.
\<close>

theorem unguarded_removal_ends_run:
  "(confirm_update E = Inr False \<longrightarrow>
      (case os_remove (fault E RmDeclined) dp (log ''User declined update.'' w) of
         Inr w' \<Rightarrow> main_from_297 E dp pn ip bd w = finish UserDeclined 0 w'
       | Inl e \<Rightarrow> main_from_297 E dp pn ip bd w = uncaught e (log ''User declined update.'' w))) \<and>
   (dp \<notin> dirs w \<and> files w dp = None \<longrightarrow> os_remove None dp w = Inl FileNotFoundError) \<and>
   (urlopen E url = Response status body (Some (n, e)) \<and> status < 400 \<and>
    fault E st = None \<and> \<not> os_path_exists (tmp_name E st url) w
    \<longrightarrow> fst (download_to_temp E st url d w) = None \<and>
        files (snd (download_to_temp E st url d w)) (tmp_name E st url) = Some (take n body, 384))"
  by (auto simp: main_from_297_def remove_and_exit_def os_remove_def download_to_temp_def
        mkstemp_def os_path_exists_def Let_def split: sum.splits)

theorem unguarded_removal_ends_run_witness:
  "outcome (main (example_env ''new'' [''n''] (faults_at [RmDeclined] PermissionError) no_copy_fault)
              (example_world ''old'')) = Uncaught PermissionError \<and>
   files (final (main (example_env ''new'' [''n''] (faults_at [RmDeclined] PermissionError)
                         no_copy_fault) (example_world ''old'')))
         ''/tmp/b.exe'' = Some (''new'', 384) \<and>
   files (example_world ''old'') ''/tmp/b.exe'' = None \<and>
   outcome (main_from_297 (example_env ''new'' [''n''] (faults_at [RmDeclined] PermissionError)
              no_copy_fault) ''/tmp/b.exe'' ''Lon.exe'' ''/app/lon.bin'' ''/app/bak''
              (example_downloaded ''/app/lon.bin'' ''old'')) = Uncaught PermissionError \<and>
   outcome (main_from_297 (example_env ''new'' [''n''] no_fault no_copy_fault) ''/tmp/b.exe''
              ''Lon.exe'' ''/app/lon.bin'' ''/app/bak'' (example_downloaded ''/app/lon.bin'' ''old''))
     = UserDeclined \<and>
   os_remove None ''/tmp/b.exe'' (example_world ''old'') = Inl FileNotFoundError \<and>
   outcome (main_from_297 (example_env ''new'' [''n''] no_fault no_copy_fault) ''/tmp/b.exe''
              ''Lon.exe'' ''/app/lon.bin'' ''/app/bak'' (example_world ''old''))
     = Uncaught FileNotFoundError \<and>
   outcome (main (broken_release (example_env ''new'' [] no_fault no_copy_fault))
              (example_world ''old'')) = DownloadFailed \<and>
   files (final (main (broken_release (example_env ''new'' [] no_fault no_copy_fault))
                   (example_world ''old'')))
         ''/tmp/b.exe'' = Some (''n'', 384)"
proof -
  let ?E = "example_env ''new'' [''n''] (faults_at [RmDeclined] PermissionError) no_copy_fault"
  let ?E' = "example_env ''new'' [''n''] no_fault no_copy_fault"
  let ?B = "broken_release (example_env ''new'' [] no_fault no_copy_fault)"
  let ?w = "example_downloaded ''/app/lon.bin'' ''old''"
  let ?v = "example_world ''old''"
  let ?l = "log ''User declined update.'' ?w"
  have c: "confirm_update ?E = Inr False" "confirm_update ?E' = Inr False" by code_simp+
  have r: "os_remove (fault ?E RmDeclined) ''/tmp/b.exe'' ?l = Inl PermissionError"
    by (simp add: os_remove_def example_env_def faults_at_def)
  have "\<not> isl (os_remove (fault ?E' RmDeclined) ''/tmp/b.exe'' ?l)" by code_simp
  then obtain w2 where r': "os_remove (fault ?E' RmDeclined) ''/tmp/b.exe'' ?l = Inr w2"
    by (cases "os_remove (fault ?E' RmDeclined) ''/tmp/b.exe'' ?l") simp_all
  have g: "''/tmp/b.exe'' \<notin> dirs ?v \<and> files ?v ''/tmp/b.exe'' = None" by code_simp
  have u: "urlopen ?B ''http://h/lon.exe'' = Response 200 ''new'' (Some (1, URLError)) \<and>
           (200::nat) < 400 \<and> fault ?B MkstempRelease = None \<and>
           \<not> os_path_exists (tmp_name ?B MkstempRelease ''http://h/lon.exe'') ?v"
    by code_simp
  have m: "outcome (main ?E ?v) = Uncaught PermissionError \<and>
           files (final (main ?E ?v)) ''/tmp/b.exe'' = Some (''new'', 384) \<and>
           outcome (main_from_297 ?E' ''/tmp/b.exe'' ''Lon.exe'' ''/app/lon.bin'' ''/app/bak'' ?v)
             = Uncaught FileNotFoundError \<and>
           outcome (main ?B ?v) = DownloadFailed \<and>
           files (final (main ?B ?v)) ''/tmp/b.exe'' = Some (''n'', 384)"
    by code_simp
  from unguarded_removal_ends_run
         [where E = ?E and dp = "''/tmp/b.exe''" and w = ?w and pn = "''Lon.exe''"
            and ip = "''/app/lon.bin''" and bd = "''/app/bak''",
          THEN conjunct1, THEN mp, OF c(1)]
  have a: "main_from_297 ?E ''/tmp/b.exe'' ''Lon.exe'' ''/app/lon.bin'' ''/app/bak'' ?w
             = uncaught PermissionError ?l"
    unfolding r by simp
  from unguarded_removal_ends_run
         [where E = ?E' and dp = "''/tmp/b.exe''" and w = ?w and pn = "''Lon.exe''"
            and ip = "''/app/lon.bin''" and bd = "''/app/bak''",
          THEN conjunct1, THEN mp, OF c(2)]
  have b: "main_from_297 ?E' ''/tmp/b.exe'' ''Lon.exe'' ''/app/lon.bin'' ''/app/bak'' ?w
             = finish UserDeclined 0 w2"
    unfolding r' by simp
  from unguarded_removal_ends_run
         [where dp = "''/tmp/b.exe''" and w = ?v, THEN conjunct2, THEN conjunct1, THEN mp, OF g]
  have e: "os_remove None ''/tmp/b.exe'' ?v = Inl FileNotFoundError" .
  from unguarded_removal_ends_run
         [where E = ?B and w = ?v and url = "''http://h/lon.exe''" and status = 200
            and body = "''new''" and n = 1 and e = URLError and st = MkstempRelease
            and d = "''Lon.exe''",
          THEN conjunct2, THEN conjunct2, THEN mp, OF u]
  have k: "fst (download_to_temp ?B MkstempRelease ''http://h/lon.exe'' ''Lon.exe'' ?v) = None" by simp
  from a b e g m k show ?thesis by simp
qed

subsection \<open>The installed file is up to date, or its digest cannot be computed\<close>

text \<open>
  C10. When the installed file exists and computing its digest raises, the exception is
  logged and the run goes on with the confirmation, exactly as it does when the digest
  of the installed file differs from the one of the download.
\<close>

theorem digest_error_is_swallowed:
  "(os_path_isfile ip w \<and> sha256_of_file E (fault E HashInstalled) ip w = Inl e
    \<longrightarrow> main_from_286 E nd dp pn ip bd w =
        main_from_297 E dp pn ip bd
          (log (''Could not compute current executable checksum: '' @ str_exn e) w)) \<and>
   (os_path_isfile ip w \<and> sha256_of_file E (fault E HashInstalled) ip w = Inr cur \<and>
    lower cur \<noteq> lower nd
    \<longrightarrow> main_from_286 E nd dp pn ip bd w = main_from_297 E dp pn ip bd w)"
  by (simp add: main_from_286_def)

theorem digest_error_is_swallowed_witness:
  "os_path_isfile ''/app/lon.bin'' (example_downloaded ''/app/lon.bin'' ''old'') \<and>
   sha256_of_file (example_env ''new'' [''y''] (faults_at [HashInstalled] OSError) no_copy_fault)
     (fault (example_env ''new'' [''y''] (faults_at [HashInstalled] OSError) no_copy_fault)
        HashInstalled)
     ''/app/lon.bin'' (example_downloaded ''/app/lon.bin'' ''old'') = Inl OSError \<and>
   outcome (main_from_286
              (example_env ''new'' [''y''] (faults_at [HashInstalled] OSError) no_copy_fault)
              ''new'' ''/tmp/b.exe'' ''Lon.exe'' ''/app/lon.bin'' ''/app/bak''
              (example_downloaded ''/app/lon.bin'' ''old'')) = Success \<and>
   files (final (main_from_286
              (example_env ''new'' [''y''] (faults_at [HashInstalled] OSError) no_copy_fault)
              ''new'' ''/tmp/b.exe'' ''Lon.exe'' ''/app/lon.bin'' ''/app/bak''
              (example_downloaded ''/app/lon.bin'' ''old''))) ''/app/lon.bin''
     = Some (''new'', 384) \<and>
   sha256_of_file (example_env ''new'' [''y''] no_fault no_copy_fault)
     (fault (example_env ''new'' [''y''] no_fault no_copy_fault) HashInstalled)
     ''/app/lon.bin'' (example_downloaded ''/app/lon.bin'' ''old'') = Inr ''old'' \<and>
   lower ''old'' \<noteq> lower ''new'' \<and>
   outcome (main_from_286 (example_env ''new'' [''y''] no_fault no_copy_fault)
              ''new'' ''/tmp/b.exe'' ''Lon.exe'' ''/app/lon.bin'' ''/app/bak''
              (example_downloaded ''/app/lon.bin'' ''old'')) = Success"
proof -
  let ?E = "example_env ''new'' [''y''] (faults_at [HashInstalled] OSError) no_copy_fault"
  let ?E' = "example_env ''new'' [''y''] no_fault no_copy_fault"
  let ?w = "example_downloaded ''/app/lon.bin'' ''old''"
  let ?c = "main_from_297 ?E ''/tmp/b.exe'' ''Lon.exe'' ''/app/lon.bin'' ''/app/bak''
              (log (''Could not compute current executable checksum: '' @ str_exn OSError) ?w)"
  let ?c' = "main_from_297 ?E' ''/tmp/b.exe'' ''Lon.exe'' ''/app/lon.bin'' ''/app/bak'' ?w"
  have h: "os_path_isfile ''/app/lon.bin'' ?w \<and>
           sha256_of_file ?E (fault ?E HashInstalled) ''/app/lon.bin'' ?w = Inl OSError"
    by code_simp
  have h': "os_path_isfile ''/app/lon.bin'' ?w \<and>
           sha256_of_file ?E' (fault ?E' HashInstalled) ''/app/lon.bin'' ?w = Inr ''old'' \<and>
           lower ''old'' \<noteq> lower ''new''"
    by code_simp
  have g: "outcome ?c = Success \<and> files (final ?c) ''/app/lon.bin'' = Some (''new'', 384)"
    by code_simp
  have g': "outcome ?c' = Success" by code_simp
  from digest_error_is_swallowed
         [of "''/app/lon.bin''" ?w ?E OSError "''new''" "''/tmp/b.exe''" "''Lon.exe''" "''/app/bak''",
          THEN conjunct1, THEN mp, OF h]
       digest_error_is_swallowed
         [of "''/app/lon.bin''" ?w ?E' _ "''new''" "''/tmp/b.exe''" "''Lon.exe''" "''/app/bak''" "''old''",
          THEN conjunct2, THEN mp, OF h']
       h h' g g'
  show ?thesis by simp
qed

text \<open>
  C7. With an installed file whose digest equals the one of the download, the run ends
  as up to date, with exit code 0 and nothing but the download removed, only if the
  removal of the download succeeds. The removal stands inside the \<^verbatim>\<open>try\<close> block of the
  digest: when it raises, the exception is logged as a digest that could not be
  computed and the run goes on to the confirmation, the backup and the replacement.
\<close>

theorem up_to_date_exit_depends_on_removal:
  "os_path_isfile ip w \<and> sha256_of_file E (fault E HashInstalled) ip w = Inr cur \<and>
   lower cur = lower nd
   \<longrightarrow> (case os_remove (fault E RmUpToDate) dp
                 (log ''Installed Lon.exe is already up to date. No update necessary.'' w) of
          Inr w2 \<Rightarrow> main_from_286 E nd dp pn ip bd w = finish AlreadyUpToDate 0 w2
        | Inl e \<Rightarrow>
            main_from_286 E nd dp pn ip bd w =
              main_from_297 E dp pn ip bd
                (log (''Could not compute current executable checksum: '' @ str_exn e)
                   (log ''Installed Lon.exe is already up to date. No update necessary.'' w)))"
  by (simp add: main_from_286_def Let_def split: sum.split)

theorem up_to_date_exit_depends_on_removal_witness:
  "outcome (main_from_286
              (example_env ''new'' [''y''] (faults_at [RmUpToDate] PermissionError) no_copy_fault)
              ''new'' ''/tmp/b.exe'' ''Lon.exe'' ''/app/lon.bin'' ''/app/bak''
              (example_downloaded ''/app/lon.bin'' ''new'')) = Success \<and>
   files (final (main_from_286
              (example_env ''new'' [''y''] (faults_at [RmUpToDate] PermissionError) no_copy_fault)
              ''new'' ''/tmp/b.exe'' ''Lon.exe'' ''/app/lon.bin'' ''/app/bak''
              (example_downloaded ''/app/lon.bin'' ''new'')))
         ''/app/bak/lon_20260104_070809.exe'' = Some (''new'', 493) \<and>
   outcome (main (example_env ''new'' [''y''] (faults_at [RmUpToDate] PermissionError) no_copy_fault)
              (example_world ''new'')) = Success \<and>
   files (final (main (example_env ''new'' [''y''] (faults_at [RmUpToDate] PermissionError)
                         no_copy_fault) (example_world ''new'')))
         ''/app/bak/lon_20260104_070809.exe'' = Some (''new'', 493) \<and>
   files (example_world ''new'') ''/app/bak/lon_20260104_070809.exe'' = None \<and>
   outcome (main_from_286 (example_env ''new'' [''y''] no_fault no_copy_fault)
              ''new'' ''/tmp/b.exe'' ''Lon.exe'' ''/app/lon.bin'' ''/app/bak''
              (example_downloaded ''/app/lon.bin'' ''new'')) = AlreadyUpToDate \<and>
   exit_code (main_from_286 (example_env ''new'' [''y''] no_fault no_copy_fault)
              ''new'' ''/tmp/b.exe'' ''Lon.exe'' ''/app/lon.bin'' ''/app/bak''
              (example_downloaded ''/app/lon.bin'' ''new'')) = 0"
proof -
  let ?E = "example_env ''new'' [''y''] (faults_at [RmUpToDate] PermissionError) no_copy_fault"
  let ?E' = "example_env ''new'' [''y''] no_fault no_copy_fault"
  let ?w = "example_downloaded ''/app/lon.bin'' ''new''"
  let ?w1 = "log ''Installed Lon.exe is already up to date. No update necessary.'' ?w"
  let ?c = "main_from_297 ?E ''/tmp/b.exe'' ''Lon.exe'' ''/app/lon.bin'' ''/app/bak''
              (log (''Could not compute current executable checksum: '' @ str_exn PermissionError)
                 ?w1)"
  have h: "os_path_isfile ''/app/lon.bin'' ?w \<and>
           sha256_of_file ?E (fault ?E HashInstalled) ''/app/lon.bin'' ?w = Inr ''new'' \<and>
           lower ''new'' = lower ''new''"
    by code_simp
  have h': "os_path_isfile ''/app/lon.bin'' ?w \<and>
           sha256_of_file ?E' (fault ?E' HashInstalled) ''/app/lon.bin'' ?w = Inr ''new'' \<and>
           lower ''new'' = lower ''new''"
    by code_simp
  have r: "os_remove (fault ?E RmUpToDate) ''/tmp/b.exe'' ?w1 = Inl PermissionError"
    by (simp add: os_remove_def example_env_def faults_at_def)
  have "\<not> isl (os_remove (fault ?E' RmUpToDate) ''/tmp/b.exe'' ?w1)" by code_simp
  then obtain w2 where r': "os_remove (fault ?E' RmUpToDate) ''/tmp/b.exe'' ?w1 = Inr w2"
    by (cases "os_remove (fault ?E' RmUpToDate) ''/tmp/b.exe'' ?w1") simp_all
  have g: "outcome ?c = Success \<and>
           files (final ?c) ''/app/bak/lon_20260104_070809.exe'' = Some (''new'', 493)"
    by code_simp
  have m: "outcome (main ?E (example_world ''new'')) = Success \<and>
           files (final (main ?E (example_world ''new''))) ''/app/bak/lon_20260104_070809.exe''
             = Some (''new'', 493) \<and>
           files (example_world ''new'') ''/app/bak/lon_20260104_070809.exe'' = None"
    by code_simp
  from up_to_date_exit_depends_on_removal
         [of "''/app/lon.bin''" ?w ?E "''new''" "''new''" "''/tmp/b.exe''" "''Lon.exe''" "''/app/bak''",
          THEN mp, OF h]
  have a: "main_from_286 ?E ''new'' ''/tmp/b.exe'' ''Lon.exe'' ''/app/lon.bin'' ''/app/bak'' ?w = ?c"
    unfolding r by simp
  from up_to_date_exit_depends_on_removal
         [of "''/app/lon.bin''" ?w ?E' "''new''" "''new''" "''/tmp/b.exe''" "''Lon.exe''" "''/app/bak''",
          THEN mp, OF h']
  have b: "main_from_286 ?E' ''new'' ''/tmp/b.exe'' ''Lon.exe'' ''/app/lon.bin'' ''/app/bak'' ?w
             = finish AlreadyUpToDate 0 w2"
    unfolding r' by simp
  from a b g m show ?thesis by simp
qed

subsection \<open>Rollback\<close>




end
